theory Spec2Isabelle
  imports Complex_Main "HOL-Library.AList" "HOL-Library.Char_ord" "HOL-Library.List_Lexorder"
begin

section \<open>Python values, errors and dictionaries\<close>

text \<open>
  Settings values as they come out of a settings file: \<open>None\<close>, booleans, integers,
  strings and lists of these.  A Python dict is an association list read with
  \<open>map_of\<close> (the first entry of a key is the one a lookup sees).
\<close>

datatype pyval = PNone | PBool bool | PInt int | PStr string | PList "pyval list"

datatype error =
    KeyError
  | TypeError
  | AttributeError
  | ValueError
  | NameError
  | UnboundLocalError
  | ImportError string
  | ExternalError string

type_synonym 'v dict = "(string \<times> 'v) list"

text \<open>\<open>d[k]\<close>: raises \<open>KeyError\<close> when the key is missing.\<close>

definition getitem :: "'v dict \<Rightarrow> string \<Rightarrow> error + 'v" where
  "getitem d k = (case map_of d k of None \<Rightarrow> Inl KeyError | Some v \<Rightarrow> Inr v)"

text \<open>Python truthiness, as used by \<open>if value:\<close>.\<close>

fun truthy :: "pyval \<Rightarrow> bool" where
  "truthy PNone = False"
| "truthy (PBool b) = b"
| "truthy (PInt i) = (i \<noteq> 0)"
| "truthy (PStr s) = (s \<noteq> [])"
| "truthy (PList vs) = (vs \<noteq> [])"

text \<open>The Idea / settings object: a nested mapping section \<open>\<rightarrow>\<close> key \<open>\<rightarrow>\<close> value.\<close>

type_synonym settings_section = "pyval dict"
type_synonym settings = "settings_section dict"

text \<open>\<open>'_'.join([a, b])\<close>\<close>

definition join_underscore :: "string \<Rightarrow> string \<Rightarrow> string" where
  "join_underscore a b = a @ ''_'' @ b"


section \<open>Author._build_techniques (simplify/core/author.py)\<close>

text \<open>
  \<open>product(*possibilities)\<close> is \<open>itertools.product\<close>: all ways to pick one element
  from each list, the rightmost position varying fastest.
\<close>

fun product_iter :: "'a list list \<Rightarrow> 'a list list" where
  "product_iter [] = [[]]"
| "product_iter (xs # xss) = concat (map (\<lambda>x. map (\<lambda>p. x # p) (product_iter xss)) xs)"

text \<open>
  One pass of the loop body: the \<open>try\<close> reads
  \<open>self.idea[name]['_'.join([step, 'techniques'])]\<close> and passes it to \<open>listify\<close>;
  a \<open>KeyError\<close> from either subscript appends \<open>['none']\<close> instead.
  \<open>listify\<close> lives in \<open>simplify.core.utilities\<close>, which is not among the sources,
  so it is a parameter.
\<close>

definition step_techniques ::
  "(pyval \<Rightarrow> pyval list) \<Rightarrow> settings \<Rightarrow> string \<Rightarrow> string \<Rightarrow> pyval list" where
  "step_techniques listify idea name step =
     (case getitem idea name of
        Inl _ \<Rightarrow> [PStr ''none'']
      | Inr sec \<Rightarrow>
          (case getitem sec (join_underscore step ''techniques'') of
             Inl _ \<Rightarrow> [PStr ''none'']
           | Inr v \<Rightarrow> listify v))"

definition build_possibilities ::
  "(pyval \<Rightarrow> pyval list) \<Rightarrow> settings \<Rightarrow> string \<Rightarrow> string list \<Rightarrow> pyval list list" where
  "build_possibilities listify idea name steps = map (step_techniques listify idea name) steps"

text \<open>
  The names the module \<open>author.py\<close> binds: those of its \<open>import\<close> statements and its
  classes.  \<open>product\<close> is not among them, and it is not a builtin.
\<close>

definition author_globals :: "string list" where
  "author_globals =
     [''dataclass'', ''field'', ''import_module'', ''Any'', ''Callable'', ''Dict'',
      ''Iterable'', ''List'', ''Optional'', ''Union'', ''Book'', ''Chapter'', ''Page'',
      ''CodexOptions'', ''listify'', ''Creator'', ''Author'', ''ChapterCreator'',
      ''PageCreator'', ''SimpleCodex'']"

text \<open>
  \<open>_build_techniques\<close> in a module that binds the names \<open>globals\<close>.  The loop fills
  \<open>possibilities\<close>; the \<open>return\<close> then looks the name \<open>product\<close> up, which raises
  \<open>NameError\<close> when the module does not bind it.  Where it is bound it is taken to be
  \<open>itertools.product\<close>.
\<close>

definition build_techniques ::
  "string list \<Rightarrow> (pyval \<Rightarrow> pyval list) \<Rightarrow> settings \<Rightarrow> string \<Rightarrow> string list
     \<Rightarrow> error + pyval list list" where
  "build_techniques globals listify idea name steps =
     (let possibilities = build_possibilities listify idea name steps
      in if ''product'' \<in> set globals then Inr (product_iter possibilities)
         else Inl NameError)"

text \<open>A \<open>listify\<close> for concrete runs: a list stays, anything else is wrapped.\<close>

fun listify_plain :: "pyval \<Rightarrow> pyval list" where
  "listify_plain (PList vs) = vs"
| "listify_plain v = [v]"



section \<open>SimpleLoader.load (simplify/core/base.py)\<close>

text \<open>
  Objects a loader handles: a string (a name still to be resolved), a dict of names
  (the \<open>default_components\<close> table) or any other, already loaded, object.
\<close>

datatype 'o pyobj = OStr string | ODict "string dict" | OObj 'o

text \<open>
  The dataclass fields \<open>name\<close>, \<open>module\<close> and \<open>default_module\<close>, the further
  instance attributes a subclass stores its components in, and the
  \<open>default_components\<close> table, which \<open>SimpleLoader\<close> itself never defines
  (\<open>None\<close>: the attribute does not exist).
\<close>

record 'o simple_loader =
  name :: string
  module :: string
  default_module :: string
  components :: "'o pyobj dict"
  default_components :: "string dict option"

text \<open>\<open>getattr(self, component)\<close>\<close>

definition getattr_self :: "'o simple_loader \<Rightarrow> string \<Rightarrow> error + 'o pyobj" where
  "getattr_self self component =
     (if component = ''name'' then Inr (OStr (name self))
      else if component = ''module'' then Inr (OStr (module self))
      else if component = ''default_module'' then Inr (OStr (default_module self))
      else if component = ''default_components'' then
        (case default_components self of
           None \<Rightarrow> Inl AttributeError
         | Some d \<Rightarrow> Inr (ODict d))
      else
        (case map_of (components self) component of
           None \<Rightarrow> Inl AttributeError
         | Some v \<Rightarrow> Inr v))"

text \<open>
  The importable modules: module name \<open>\<rightarrow>\<close> namespace.  \<open>import_module(m)\<close>, called
  without a package, raises \<open>TypeError\<close> for a relative name (one that starts with a
  dot), \<open>ValueError\<close> for the empty name and \<open>ImportError\<close> for an unknown module;
  \<open>getattr\<close> on a module raises \<open>AttributeError\<close> for an unknown attribute.
\<close>

type_synonym 'o modules = "'o pyobj dict dict"

definition import_module :: "'o modules \<Rightarrow> string \<Rightarrow> error + 'o pyobj dict" where
  "import_module mods m =
     (if take 1 m = ''.'' then Inl TypeError
      else if m = [] then Inl ValueError
      else (case map_of mods m of None \<Rightarrow> Inl (ImportError m) | Some ns \<Rightarrow> Inr ns))"

definition getattr_module :: "'o pyobj dict \<Rightarrow> string \<Rightarrow> error + 'o pyobj" where
  "getattr_module ns a = (case map_of ns a of None \<Rightarrow> Inl AttributeError | Some v \<Rightarrow> Inr v)"

text \<open>\<open>getattr(import_module(m), a)\<close>\<close>

definition lookup_in :: "'o modules \<Rightarrow> string \<Rightarrow> string \<Rightarrow> error + 'o pyobj" where
  "lookup_in mods m a =
     (case import_module mods m of Inl e \<Rightarrow> Inl e | Inr ns \<Rightarrow> getattr_module ns a)"

text \<open>\<open>except (ImportError, AttributeError)\<close>\<close>

fun caught :: "error \<Rightarrow> bool" where
  "caught (ImportError _) = True"
| "caught AttributeError = True"
| "caught _ = False"

text \<open>
  The message of the final \<open>raise\<close>:
  \<open>' '.join([getattr(self, component), 'is neither in', self.module, 'nor',
  self.default_module])\<close>.
\<close>

definition not_found_message :: "'o simple_loader \<Rightarrow> string \<Rightarrow> string" where
  "not_found_message self s =
     s @ '' '' @ ''is neither in'' @ '' '' @ module self @ '' '' @ ''nor'' @ '' '' @ default_module self"

text \<open>
  The third attempt,
  \<open>getattr(import_module(self.default_module), self.default_components[component])\<close>:
  the arguments are evaluated left to right, so the import comes first, then the
  attribute \<open>default_components\<close>, then its subscript (a \<open>KeyError\<close> when the table
  has no entry for the component), then the module attribute.
\<close>

definition third_lookup :: "'o modules \<Rightarrow> 'o simple_loader \<Rightarrow> string \<Rightarrow> error + 'o pyobj" where
  "third_lookup mods self component =
     (case import_module mods (default_module self) of
        Inl e \<Rightarrow> Inl e
      | Inr ns \<Rightarrow>
          (case default_components self of
             None \<Rightarrow> Inl AttributeError
           | Some table \<Rightarrow>
               (case getitem table component of
                  Inl e \<Rightarrow> Inl e
                | Inr a \<Rightarrow> getattr_module ns a)))"

text \<open>
  What a call of \<open>load\<close> leaves behind: the instance (the method assigns to none of its
  attributes), the modules it passed to \<open>import_module\<close>, in order, and the value it
  returns or the exception it raises.
\<close>

record 'o load_result =
  self_after :: "'o simple_loader"
  imported :: "string list"
  outcome :: "error + 'o pyobj"

definition load :: "'o modules \<Rightarrow> 'o simple_loader \<Rightarrow> string \<Rightarrow> 'o load_result" where
  "load mods self component =
     (case getattr_self self component of
        Inl e \<Rightarrow> \<lparr>self_after = self, imported = [], outcome = Inl e\<rparr>
      | Inr (OStr s) \<Rightarrow>
          (case lookup_in mods (module self) s of
             Inr v \<Rightarrow> \<lparr>self_after = self, imported = [module self], outcome = Inr v\<rparr>
           | Inl e1 \<Rightarrow>
               if \<not> caught e1
               then \<lparr>self_after = self, imported = [module self], outcome = Inl e1\<rparr>
               else
                 (case lookup_in mods (default_module self) s of
                    Inr v \<Rightarrow>
                      \<lparr>self_after = self, imported = [module self, default_module self],
                       outcome = Inr v\<rparr>
                  | Inl e2 \<Rightarrow>
                      if \<not> caught e2
                      then \<lparr>self_after = self, imported = [module self, default_module self],
                            outcome = Inl e2\<rparr>
                      else
                        (case third_lookup mods self component of
                           Inr v \<Rightarrow>
                             \<lparr>self_after = self,
                              imported = [module self, default_module self, default_module self],
                              outcome = Inr v\<rparr>
                         | Inl e3 \<Rightarrow>
                             \<lparr>self_after = self,
                              imported = [module self, default_module self, default_module self],
                              outcome =
                                (if caught e3 then Inl (ImportError (not_found_message self s))
                                 else Inl e3)\<rparr>)))
      | Inr v \<Rightarrow> \<lparr>self_after = self, imported = [], outcome = Inr v\<rparr>)"

text \<open>A loader with one component name to resolve, and the modules it is run against.\<close>

definition loader0 :: "nat simple_loader" where
  "loader0 = \<lparr>name = ''scaler'', module = ''m1'', default_module = ''m2'',
     components = [(''algorithm'', OStr ''Foo'')], default_components = Some []\<rparr>"

definition mods_without_foo :: "nat modules" where
  "mods_without_foo = [(''m1'', [(''Bar'', OObj 1)]), (''m2'', [(''Baz'', OObj 2)])]"

definition mods_with_foo :: "nat modules" where
  "mods_with_foo = [(''m1'', [(''Foo'', OObj 7)]), (''m2'', [(''Baz'', OObj 2)])]"

definition loader_loaded :: "nat simple_loader" where
  "loader_loaded = \<lparr>name = ''scaler'', module = ''m1'', default_module = ''m2'',
     components = [(''algorithm'', OObj 7)], default_components = Some []\<rparr>"

text \<open>
  A step's techniques are missing from the settings when the section or the key
  \<open>\<langle>step\<rangle>_techniques\<close> in it does not exist.
\<close>

definition techniques_missing :: "settings \<Rightarrow> string \<Rightarrow> string \<Rightarrow> bool" where
  "techniques_missing idea sect step =
     (case map_of idea sect of
        None \<Rightarrow> True
      | Some sec \<Rightarrow> map_of sec (join_underscore step ''techniques'') = None)"

definition idea0 :: settings where
  "idea0 =
     [(''general'', [(''verbose'', PBool False), (''parallelize'', PBool True), (''seed'', PInt 4)]),
      (''chef'',
         [(''scale_techniques'', PList [PStr ''minmax'', PStr ''normalize'']),
          (''model_techniques'', PStr ''xgboost'')])]"


section \<open>Data (ml_funnel/data.py)\<close>

subsection \<open>Frames, the filer and the readers\<close>

text \<open>
  A pandas frame: its columns in order, each a label and the series under it.  What a
  series holds is left open (\<open>'c\<close>); whatever pandas computes from one is a parameter of
  the operation that asks for it.
\<close>

type_synonym 'c frame = "(string \<times> 'c) list"

definition columns :: "'c frame \<Rightarrow> string list" where
  "columns d = map fst d"

text \<open>\<open>x.startswith(prefix)\<close>\<close>

definition startswith :: "string \<Rightarrow> string \<Rightarrow> bool" where
  "startswith x p = (take (length p) x = p)"

text \<open>
  \<open>df.drop(labels, axis = 'columns', inplace = True)\<close>: a label that is not a column
  raises \<open>KeyError\<close> and leaves the frame as it was; otherwise every column with one of
  the labels goes.
\<close>

definition frame_drop :: "string list \<Rightarrow> 'c frame \<Rightarrow> error + 'c frame" where
  "frame_drop labels d =
     (if list_all (\<lambda>l. l \<in> set (columns d)) labels
      then Inr (filter (\<lambda>c. fst c \<notin> set labels) d)
      else Inl KeyError)"

text \<open>
  The filer is an external collaborator; \<open>Data\<close> reads two of its attributes and calls
  \<open>make_path(folder, file_name, file_type)\<close>.
\<close>

record filer =
  filer_import_folder :: string
  filer_data_file_in :: string
  filer_make_path :: "string \<Rightarrow> string \<Rightarrow> pyval \<Rightarrow> error + string"

text \<open>
  The pandas readers \<open>load\<close> calls, with the arguments it passes:
  \<open>read_csv(path, index_col, nrows, usecols, encoding)\<close>, the \<open>replace\<close> that follows
  it, \<open>read_hdf(path, chunksize)\<close> and \<open>read_feather(path)\<close>.
\<close>

record 'c pandas =
  read_csv :: "string \<Rightarrow> pyval \<Rightarrow> pyval \<Rightarrow> pyval \<Rightarrow> pyval \<Rightarrow> error + 'c frame"
  replace_char :: "'c frame \<Rightarrow> 'c frame"
  read_hdf :: "string \<Rightarrow> pyval \<Rightarrow> error + 'c frame"
  read_feather :: "string \<Rightarrow> error + 'c frame"

text \<open>The datatypes \<open>column_dict\<close> records: \<open>bool\<close>, \<open>'category'\<close>, \<open>float\<close>, \<open>int\<close>, \<open>str\<close>.\<close>

datatype coltype = Tbool | Tcategory | Tfloat | Tint | Tstr

text \<open>
  The dataclass fields of \<open>Data\<close> that the operations below read or write (the
  \<open>x\<close>/\<open>y\<close> splits are left out: none of these operations touches them) ...
\<close>

record 'c data_fields =
  settings :: "settings option"
  df :: "'c frame option"
  quick_start :: bool
  filer :: "filer option"
  seed :: pyval

text \<open>
  ... and the attributes assigned later.  \<open>__post_init__\<close> assigns \<open>verbose\<close>,
  \<open>dropped_columns\<close> and \<open>splice_options\<close>, so every constructed object has them.
  The column lists and \<open>column_dict\<close> exist only once \<open>column_types\<close> has assigned them
  (\<open>None\<close>: not assigned yet).
\<close>

record 'c data = "'c data_fields" +
  verbose :: pyval
  dropped_columns :: "string list"
  splice_options :: "string list dict"
  bool_cols :: "string list option"
  cat_cols :: "string list option"
  float_cols :: "string list option"
  int_cols :: "string list option"
  interact_cols :: "string list option"
  list_cols :: "string list option"
  str_cols :: "string list option"
  num_cols :: "string list option"
  all_cols :: "string list option"
  column_dict :: "coltype dict option"

text \<open>\<open>if not isinstance(df, pd.DataFrame): df = self.df\<close>\<close>

definition resolve_df :: "'c data \<Rightarrow> 'c frame option \<Rightarrow> 'c frame option" where
  "resolve_df self df_arg = (case df_arg of Some d \<Rightarrow> Some d | None \<Rightarrow> df self)"


subsection \<open>Data._set_defaults, Data.load and Data.__post_init__\<close>

text \<open>\<open>self.settings[section][key]\<close>: subscripting \<open>None\<close> raises \<open>TypeError\<close>.\<close>

definition settings_item :: "settings option \<Rightarrow> string \<Rightarrow> string \<Rightarrow> error + pyval" where
  "settings_item st sect key =
     (case st of
        None \<Rightarrow> Inl TypeError
      | Some s \<Rightarrow>
          (case getitem s sect of
             Inl e \<Rightarrow> Inl e
           | Inr sec \<Rightarrow> getitem sec key))"

text \<open>
  \<open>_set_defaults\<close> yields the values of \<open>verbose\<close> and \<open>seed\<close>.  The first statement
  that raises ends the call, and with it the construction of the object.
\<close>

definition set_defaults :: "'c data_fields \<Rightarrow> error + (pyval \<times> pyval)" where
  "set_defaults self =
     (case settings_item (settings self) ''general'' ''verbose'' of
        Inl e \<Rightarrow> Inl e
      | Inr v \<Rightarrow>
          (let verbose' = (if truthy v then v else PBool True) in
           case settings_item (settings self) ''general'' ''seed'' of
             Inl e \<Rightarrow> Inl e
           | Inr sd \<Rightarrow> Inr (verbose', if truthy sd then sd else seed self)))"

text \<open>The keyword arguments of \<open>load\<close> and their defaults.\<close>

record load_args =
  import_folder :: string
  file_name :: string
  import_path :: string
  file_format :: pyval
  usecols :: pyval
  index :: pyval
  encoding :: pyval
  test_data :: pyval
  test_rows :: pyval
  return_df :: bool
  message :: string

definition load_defaults :: load_args where
  "load_defaults =
     \<lparr>import_folder = '''', file_name = ''data'', import_path = '''',
      file_format = PStr ''csv'', usecols = PNone, index = PBool False,
      encoding = PStr ''windows-1252'', test_data = PBool False, test_rows = PInt 500,
      return_df = False, message = ''Importing data''\<rparr>"

text \<open>
  The path \<open>load\<close> reads from: \<open>import_path\<close> when it is given, otherwise built by the
  filer.  \<open>self.filer\<close> is \<open>None\<close> unless one was passed, and an attribute of \<open>None\<close>
  raises \<open>AttributeError\<close>.
\<close>

definition resolve_path :: "'c data \<Rightarrow> load_args \<Rightarrow> error + string" where
  "resolve_path self a =
     (if import_path a \<noteq> [] then Inr (import_path a)
      else
        (case (if import_folder a \<noteq> [] then Inr (import_folder a)
               else (case filer self of
                       None \<Rightarrow> Inl AttributeError
                     | Some f \<Rightarrow> Inr (filer_import_folder f))) of
           Inl e \<Rightarrow> Inl e
         | Inr folder \<Rightarrow>
             (case filer self of
                None \<Rightarrow> Inl AttributeError
              | Some f \<Rightarrow> filer_make_path f folder (file_name a) (file_format a))))"

text \<open>
  The \<open>if\<close>/\<open>elif\<close> chain on \<open>file_format\<close>.  It has no \<open>else\<close>: for any other format
  the local \<open>df\<close> is never assigned (\<open>None\<close> here).
\<close>

definition read_frame ::
  "'c pandas \<Rightarrow> string \<Rightarrow> pyval \<Rightarrow> load_args \<Rightarrow> (error + 'c frame) option" where
  "read_frame pd path nrows a =
     (if file_format a = PStr ''csv'' then
        Some (case read_csv pd path (index a) nrows (usecols a) (encoding a) of
                Inl e \<Rightarrow> Inl e
              | Inr d \<Rightarrow> Inr (replace_char pd d))
      else if file_format a = PStr ''h5'' then Some (read_hdf pd path nrows)
      else if file_format a = PStr ''feather'' then Some (read_feather pd path)
      else None)"

text \<open>What \<open>load\<close> returns: \<open>self\<close>, or the frame when \<open>return_df\<close> is set.\<close>

datatype 'c returned = ReturnsSelf | ReturnsFrame "'c frame"

text \<open>
  \<open>Data.load\<close>: the object after the call, and the value returned or the exception
  raised.  Reading the unassigned local \<open>df\<close> in either final branch raises
  \<open>UnboundLocalError\<close>; in \<open>self.df = df\<close> that happens before the assignment.
\<close>

definition data_load :: "'c pandas \<Rightarrow> 'c data \<Rightarrow> load_args \<Rightarrow> 'c data \<times> (error + 'c returned)" where
  "data_load pd self a =
     (case resolve_path self a of
        Inl e \<Rightarrow> (self, Inl e)
      | Inr path \<Rightarrow>
          (let nrows = (if truthy (test_data a) then test_rows a else PNone) in
           case read_frame pd path nrows a of
             None \<Rightarrow> (self, Inl UnboundLocalError)
           | Some (Inl e) \<Rightarrow> (self, Inl e)
           | Some (Inr d) \<Rightarrow>
               if \<not> return_df a then (self\<lparr>df := Some d\<rparr>, Inr ReturnsSelf)
               else (self, Inr (ReturnsFrame d))))"

text \<open>\<open>if self.quick_start and self.settings\<close>: a dict is true when it is not empty.\<close>

definition settings_truthy :: "settings option \<Rightarrow> bool" where
  "settings_truthy st = (case st of None \<Rightarrow> False | Some s \<Rightarrow> s \<noteq> [])"

text \<open>
  The arguments of the \<open>load\<close> call in \<open>__post_init__\<close>, evaluated in the order
  written: \<open>self.filer.data_file_in\<close>, then the four entries of \<open>settings['files']\<close>.
\<close>

definition quick_start_args :: "'c data \<Rightarrow> error + load_args" where
  "quick_start_args self =
     (case filer self of
        None \<Rightarrow> Inl AttributeError
      | Some f \<Rightarrow>
          (case settings_item (settings self) ''files'' ''data_in'' of
             Inl e \<Rightarrow> Inl e
           | Inr ff \<Rightarrow>
               (case settings_item (settings self) ''files'' ''test_data'' of
                  Inl e \<Rightarrow> Inl e
                | Inr td \<Rightarrow>
                    (case settings_item (settings self) ''files'' ''test_chunk'' of
                       Inl e \<Rightarrow> Inl e
                     | Inr tr \<Rightarrow>
                         (case settings_item (settings self) ''files'' ''encoding'' of
                            Inl e \<Rightarrow> Inl e
                          | Inr enc \<Rightarrow>
                              Inr (load_defaults\<lparr>import_path := filer_data_file_in f,
                                     file_format := ff, test_data := td, test_rows := tr,
                                     encoding := enc\<rparr>))))))"

text \<open>
  \<open>Data.__post_init__\<close>, run by the dataclass constructor on the fields passed to it:
  the constructed object, or the exception that ends the construction.  The
  attributes assigned at the end are not read by \<open>load\<close>, so the object handed to
  \<open>load\<close> may carry them already.
\<close>

definition post_init :: "'c pandas \<Rightarrow> 'c data_fields \<Rightarrow> error + 'c data" where
  "post_init pd self =
     (case set_defaults self of
        Inl e \<Rightarrow> Inl e
      | Inr (v, sd) \<Rightarrow>
          (let obj = \<lparr>settings = settings self, df = df self, quick_start = quick_start self,
                      filer = filer self, seed = sd, verbose = v, dropped_columns = [],
                      splice_options = [], bool_cols = None, cat_cols = None,
                      float_cols = None, int_cols = None, interact_cols = None,
                      list_cols = None, str_cols = None, num_cols = None, all_cols = None,
                      column_dict = None\<rparr>
           in if quick_start self \<and> settings_truthy (settings self) then
                (case quick_start_args obj of
                   Inl e \<Rightarrow> Inl e
                 | Inr a \<Rightarrow>
                     (case data_load pd obj a of
                        (obj', Inl e) \<Rightarrow> Inl e
                      | (obj', Inr r) \<Rightarrow> Inr (obj'\<lparr>dropped_columns := [], splice_options := []\<rparr>)))
              else Inr obj))"

text \<open>\<open>Data()\<close>: every field at its default.\<close>

definition data_default_fields :: "'c data_fields" where
  "data_default_fields =
     \<lparr>settings = None, df = None, quick_start = False, filer = None, seed = PInt 999\<rparr>"

text \<open>
  Readers for concrete runs, and the object \<open>Data(settings = idea0)\<close> constructs
  (no filer, no frame).
\<close>

definition pandas0 :: "nat pandas" where
  "pandas0 =
     \<lparr>read_csv = (\<lambda>path index_col nrows usecols enc. Inr [(''a'', 1), (''b'', 2)]),
      replace_char = (\<lambda>d. d),
      read_hdf = (\<lambda>path chunksize. Inl (ExternalError ''no such file'')),
      read_feather = (\<lambda>path. Inl (ExternalError ''no such file''))\<rparr>"

definition data0 :: "nat data" where
  "data0 =
     \<lparr>settings = Some idea0, df = None, quick_start = False, filer = None, seed = PInt 4,
      verbose = PBool True, dropped_columns = [], splice_options = [], bool_cols = None,
      cat_cols = None, float_cols = None, int_cols = None, interact_cols = None,
      list_cols = None, str_cols = None, num_cols = None, all_cols = None,
      column_dict = None\<rparr>"


subsection \<open>Data.create_column_list and Data.column_types\<close>

text \<open>
  The loop of \<open>create_column_list\<close>: every prefix appends the frame's columns that
  start with it.  Iterating over a frame yields its column labels; iterating over
  \<open>None\<close> raises \<open>TypeError\<close>.
\<close>

fun prefix_loop :: "'c frame option \<Rightarrow> string list \<Rightarrow> string list \<Rightarrow> error + string list" where
  "prefix_loop w [] prefixes_list = Inr prefixes_list"
| "prefix_loop w (prefix # rest) prefixes_list =
     (case w of
        None \<Rightarrow> Inl TypeError
      | Some d \<Rightarrow>
          prefix_loop w rest (prefixes_list @ filter (\<lambda>x. startswith x prefix) (columns d)))"

definition create_column_list ::
  "'c data \<Rightarrow> 'c frame option \<Rightarrow> string list \<Rightarrow> string list \<Rightarrow> error + string list" where
  "create_column_list self df_arg prefixes cols =
     (case prefix_loop (resolve_df self df_arg) prefixes [] of
        Inl e \<Rightarrow> Inl e
      | Inr prefixes_list \<Rightarrow> Inr (cols @ prefixes_list))"

text \<open>\<open>dict.fromkeys(keys, value)\<close> and \<open>d.update(other)\<close>\<close>

definition fromkeys :: "string list \<Rightarrow> 'v \<Rightarrow> 'v dict" where
  "fromkeys ks v = fold (\<lambda>k d. AList.update k v d) ks []"

definition dict_update :: "'v dict \<Rightarrow> 'v dict \<Rightarrow> 'v dict" where
  "dict_update d other = fold (\<lambda>(k, v) d. AList.update k v d) other d"

text \<open>The explicit column lists and prefix lists passed to \<open>column_types\<close>.\<close>

record column_args =
  cat_cols_arg :: "string list"
  cat_prefixes :: "string list"
  float_cols_arg :: "string list"
  float_prefixes :: "string list"
  int_cols_arg :: "string list"
  int_prefixes :: "string list"
  bool_cols_arg :: "string list"
  bool_prefixes :: "string list"
  interact_cols_arg :: "string list"
  interact_prefixes :: "string list"
  list_cols_arg :: "string list"
  list_prefixes :: "string list"
  str_cols_arg :: "string list"
  str_prefixes :: "string list"

text \<open>
  A method body is a sequence of statements on the object; a statement that raises
  ends it, and what was assigned before stays assigned.
\<close>

definition seq ::
  "('s \<Rightarrow> 's \<times> error option) \<Rightarrow> ('s \<Rightarrow> 's \<times> error option) \<Rightarrow> 's \<Rightarrow> 's \<times> error option" where
  "seq f g s = (case f s of (s', None) \<Rightarrow> g s' | (s', Some e) \<Rightarrow> (s', Some e))"

text \<open>\<open>self.<bucket> = self.create_column_list(df = df, prefixes = ..., cols = ...)\<close>\<close>

definition assign_column_list ::
  "(string list \<Rightarrow> 'c data \<Rightarrow> 'c data) \<Rightarrow> 'c frame option \<Rightarrow> string list \<Rightarrow> string list
     \<Rightarrow> 'c data \<Rightarrow> 'c data \<times> error option" where
  "assign_column_list setter w prefixes cols self =
     (case create_column_list self w prefixes cols of
        Inl e \<Rightarrow> (self, Some e)
      | Inr l \<Rightarrow> (setter l self, None))"

text \<open>Reading an attribute that has not been assigned raises \<open>AttributeError\<close>.\<close>

definition attribute :: "'a option \<Rightarrow> error + 'a" where
  "attribute v = (case v of None \<Rightarrow> Inl AttributeError | Some x \<Rightarrow> Inr x)"

text \<open>\<open>self.num_cols = self.float_cols + self.int_cols\<close>\<close>

definition assign_num_cols :: "'c data \<Rightarrow> 'c data \<times> error option" where
  "assign_num_cols self =
     (case attribute (float_cols self) of
        Inl e \<Rightarrow> (self, Some e)
      | Inr f \<Rightarrow>
          (case attribute (int_cols self) of
             Inl e \<Rightarrow> (self, Some e)
           | Inr i \<Rightarrow> (self\<lparr>num_cols := Some (f @ i)\<rparr>, None)))"

text \<open>\<open>self.all_cols = df.columns\<close>\<close>

definition assign_all_cols :: "'c frame option \<Rightarrow> 'c data \<Rightarrow> 'c data \<times> error option" where
  "assign_all_cols w self =
     (case w of
        None \<Rightarrow> (self, Some AttributeError)
      | Some d \<Rightarrow> (self\<lparr>all_cols := Some (columns d)\<rparr>, None))"

text \<open>
  \<open>self.column_dict = dict.fromkeys(self.bool_cols, bool)\<close> and the five
  \<open>update\<close> calls after it: cat, float, int, interact, str.  \<open>list_cols\<close> is not among
  them.
\<close>

definition build_column_dict ::
  "string list \<Rightarrow> string list \<Rightarrow> string list \<Rightarrow> string list \<Rightarrow> string list \<Rightarrow> string list
     \<Rightarrow> coltype dict" where
  "build_column_dict b c f i x s =
     dict_update (dict_update (dict_update (dict_update (dict_update
       (fromkeys b Tbool)
       (fromkeys c Tcategory))
       (fromkeys f Tfloat))
       (fromkeys i Tint))
       (fromkeys x Tcategory))
       (fromkeys s Tstr)"

definition assign_column_dict :: "'c data \<Rightarrow> 'c data \<times> error option" where
  "assign_column_dict self =
     (case attribute (bool_cols self) of Inl e \<Rightarrow> (self, Some e) | Inr b \<Rightarrow>
      case attribute (cat_cols self) of Inl e \<Rightarrow> (self, Some e) | Inr c \<Rightarrow>
      case attribute (float_cols self) of Inl e \<Rightarrow> (self, Some e) | Inr f \<Rightarrow>
      case attribute (int_cols self) of Inl e \<Rightarrow> (self, Some e) | Inr i \<Rightarrow>
      case attribute (interact_cols self) of Inl e \<Rightarrow> (self, Some e) | Inr x \<Rightarrow>
      case attribute (str_cols self) of Inl e \<Rightarrow> (self, Some e) | Inr s \<Rightarrow>
        (self\<lparr>column_dict := Some (build_column_dict b c f i x s)\<rparr>, None))"

definition column_types ::
  "'c data \<Rightarrow> 'c frame option \<Rightarrow> column_args \<Rightarrow> 'c data \<times> error option" where
  "column_types self df_arg a =
     (let w = resolve_df self df_arg in
      seq (assign_column_list (\<lambda>l s. s\<lparr>bool_cols := Some l\<rparr>) w (bool_prefixes a) (bool_cols_arg a))
     (seq (assign_column_list (\<lambda>l s. s\<lparr>cat_cols := Some l\<rparr>) w (cat_prefixes a) (cat_cols_arg a))
     (seq (assign_column_list (\<lambda>l s. s\<lparr>float_cols := Some l\<rparr>) w (float_prefixes a) (float_cols_arg a))
     (seq (assign_column_list (\<lambda>l s. s\<lparr>int_cols := Some l\<rparr>) w (int_prefixes a) (int_cols_arg a))
     (seq (assign_column_list (\<lambda>l s. s\<lparr>interact_cols := Some l\<rparr>) w (interact_prefixes a)
            (interact_cols_arg a))
     (seq (assign_column_list (\<lambda>l s. s\<lparr>list_cols := Some l\<rparr>) w (list_prefixes a) (list_cols_arg a))
     (seq (assign_column_list (\<lambda>l s. s\<lparr>str_cols := Some l\<rparr>) w (str_prefixes a) (str_cols_arg a))
     (seq assign_num_cols
     (seq (assign_all_cols w)
          assign_column_dict)))))))) self)"

text \<open>The call \<open>column_types()\<close>: every list at its default \<open>[]\<close>.\<close>

definition no_column_args :: column_args where
  "no_column_args =
     \<lparr>cat_cols_arg = [], cat_prefixes = [], float_cols_arg = [], float_prefixes = [],
      int_cols_arg = [], int_prefixes = [], bool_cols_arg = [], bool_prefixes = [],
      interact_cols_arg = [], interact_prefixes = [], list_cols_arg = [], list_prefixes = [],
      str_cols_arg = [], str_prefixes = []\<rparr>"

text \<open>
  The columns a bucket's arguments select from a frame: the explicit ones, then for each
  prefix the frame's columns that start with it.
\<close>

definition selected_columns :: "'c frame \<Rightarrow> string list \<Rightarrow> string list \<Rightarrow> string list" where
  "selected_columns d prefixes cols =
     cols @ concat (map (\<lambda>p. filter (\<lambda>x. startswith x p) (columns d)) prefixes)"

text \<open>An object holding a frame with three columns, for concrete runs.\<close>

definition data1 :: "nat data" where
  "data1 = data0\<lparr>df := Some [(''a'', 1), (''b'', 2), (''cat_x'', 3)]\<rparr>"


subsection \<open>The column-dropping operations\<close>

text \<open>
  Each operation works on the frame passed as \<open>df\<close> or, without one, on \<open>self.df\<close>,
  and changes that frame in place.  What is passed as \<open>df\<close> matters beyond its
  value: nothing (or anything that is not a frame), the very frame the object holds
  (\<open>df = data.df\<close>), or another frame.
\<close>

datatype 'c df_arg = NoFrame | SelfFrame | OtherFrame "'c frame"

text \<open>
  \<open>if not isinstance(df, pd.DataFrame): df = self.df\<close>.  When the object holds no
  frame, passing \<open>data.df\<close> passes \<open>None\<close>.
\<close>

definition resolve_arg :: "'c data \<Rightarrow> 'c df_arg \<Rightarrow> 'c frame option" where
  "resolve_arg self df_arg =
     (case df_arg of
        NoFrame \<Rightarrow> df self
      | SelfFrame \<Rightarrow> df self
      | OtherFrame d \<Rightarrow> Some d)"

text \<open>
  The model returns the frame worked on as it is after the call (\<open>None\<close>: there was
  no frame), the object after the call, and the exception raised, if any.  A call
  that does not raise returns the object when no frame was passed and the frame
  otherwise.  Unless another frame was passed, the frame worked on is the object's
  own, so the object sees every change, also those made before an exception.
\<close>

type_synonym 'c dropped = "'c frame option \<times> 'c data \<times> error option"

text \<open>
  The object once the frame worked on is \<open>d\<close> and \<open>dc\<close> is its audit trail: the
  change to the frame is a change to \<open>self.df\<close> when that is the frame worked on.
\<close>

definition store :: "'c data \<Rightarrow> 'c df_arg \<Rightarrow> 'c frame \<Rightarrow> string list \<Rightarrow> 'c data" where
  "store self df_arg d dc =
     (case df_arg of
        NoFrame \<Rightarrow> self\<lparr>df := Some d, dropped_columns := dc\<rparr>
      | SelfFrame \<Rightarrow> self\<lparr>df := Some d, dropped_columns := dc\<rparr>
      | OtherFrame _ \<Rightarrow> self\<lparr>dropped_columns := dc\<rparr>)"

text \<open>\<open>Data.drop_cols\<close>\<close>

definition drop_cols ::
  "'c data \<Rightarrow> 'c df_arg \<Rightarrow> string list \<Rightarrow> string list \<Rightarrow> 'c dropped" where
  "drop_cols self df_arg prefixes cols =
     (let w = resolve_arg self df_arg in
      case create_column_list self w prefixes cols of
        Inl e \<Rightarrow> (w, self, Some e)
      | Inr cols' \<Rightarrow>
          (case w of
             None \<Rightarrow> (w, self, Some AttributeError)
           | Some d \<Rightarrow>
               (case frame_drop cols' d of
                  Inl e \<Rightarrow> (w, self, Some e)
                | Inr d' \<Rightarrow>
                    (Some d', store self df_arg d' (dropped_columns self @ cols'), None))))"

text \<open>
  The loop of \<open>Data.drop_infrequent_cols\<close> on the frame \<open>d\<close> and the audit trail \<open>dc\<close>.
  \<open>df[col]\<close> raises \<open>KeyError\<close> for a label that is not a column.  For a label that
  several columns carry it is a frame, not a series: its \<open>mean()\<close> is a series, so is
  the comparison, and the \<open>if\<close> on a series raises \<open>ValueError\<close>.  \<open>mean\<close> is the
  pandas \<open>Series.mean\<close>.
\<close>

fun drop_infrequent_loop ::
  "('c \<Rightarrow> 'n::ord) \<Rightarrow> 'n \<Rightarrow> string list \<Rightarrow> 'c frame \<Rightarrow> string list
     \<Rightarrow> 'c frame \<times> string list \<times> error option" where
  "drop_infrequent_loop mean threshold [] d dc = (d, dc, None)"
| "drop_infrequent_loop mean threshold (col # bools) d dc =
     (case filter (\<lambda>c. fst c = col) d of
        [] \<Rightarrow> (d, dc, Some KeyError)
      | [c] \<Rightarrow>
          if mean (snd c) < threshold then
            (case frame_drop [col] d of
               Inl e \<Rightarrow> (d, dc, Some e)
             | Inr d' \<Rightarrow> drop_infrequent_loop mean threshold bools d' (dc @ [col]))
          else drop_infrequent_loop mean threshold bools d dc
      | _ \<Rightarrow> (d, dc, Some ValueError))"

text \<open>
  \<open>Data.drop_infrequent_cols\<close>.  Without any frame, \<open>df[col]\<close> subscripts \<open>None\<close>
  (\<open>TypeError\<close>) as soon as there is a column to look at.
\<close>

definition drop_infrequent_cols ::
  "('c \<Rightarrow> 'n::ord) \<Rightarrow> 'c data \<Rightarrow> 'c df_arg \<Rightarrow> string list \<Rightarrow> 'n \<Rightarrow> 'c dropped" where
  "drop_infrequent_cols mean self df_arg bools threshold =
     (case resolve_arg self df_arg of
        None \<Rightarrow> (None, self, if bools = [] then None else Some TypeError)
      | Some d \<Rightarrow>
          (case drop_infrequent_loop mean threshold bools d (dropped_columns self) of
             (d', dc', e) \<Rightarrow> (Some d', store self df_arg d' dc', e)))"

text \<open>The \<open>cols\<close> argument of \<open>drop_highly_correlated_cols\<close>: \<open>'all'\<close> or a list.\<close>

datatype cols_arg = All | Cols "string list"

text \<open>
  \<open>Data.drop_highly_correlated_cols\<close>.  The loop over \<open>cols\<close> assigns \<open>upper\<close>, the
  upper triangle of the frame's correlation matrix, once per element; with nothing
  to loop over \<open>upper\<close> stays unassigned and the comprehension after the loop raises
  \<open>UnboundLocalError\<close>.  \<open>upper_columns\<close> are the columns of that matrix and
  \<open>exceeds d threshold c\<close> is \<open>any(upper[c] > threshold)\<close>, both computed by pandas and
  numpy.
\<close>

definition drop_highly_correlated_cols ::
  "('c frame \<Rightarrow> string list) \<Rightarrow> ('c frame \<Rightarrow> 'n \<Rightarrow> string \<Rightarrow> bool) \<Rightarrow> 'c data
     \<Rightarrow> 'c df_arg \<Rightarrow> cols_arg \<Rightarrow> 'n \<Rightarrow> 'c dropped" where
  "drop_highly_correlated_cols upper_columns exceeds self df_arg cols threshold =
     (let w = resolve_arg self df_arg in
      case (case cols of
              All \<Rightarrow> (case w of None \<Rightarrow> Inl AttributeError | Some d \<Rightarrow> Inr (columns d))
            | Cols cs \<Rightarrow> Inr cs) of
        Inl e \<Rightarrow> (w, self, Some e)
      | Inr cs \<Rightarrow>
          (case w of
             None \<Rightarrow> (w, self, Some (if cs = [] then UnboundLocalError else AttributeError))
           | Some d \<Rightarrow>
               if cs = [] then (w, self, Some UnboundLocalError)
               else
                 (let drop_cols' = filter (exceeds d threshold) (upper_columns d) in
                  case frame_drop drop_cols' d of
                    Inl e \<Rightarrow> (w, self, Some e)
                  | Inr d' \<Rightarrow>
                      (Some d', store self df_arg d' (dropped_columns self @ drop_cols'),
                       None))))"

text \<open>The three operations as commands, each with its \<open>df\<close> argument.\<close>

datatype ('c, 'n) drop_op =
    DropCols "'c df_arg" "string list" "string list"
  | DropInfrequent "'c df_arg" "string list" 'n
  | DropCorrelated "'c df_arg" cols_arg 'n

text \<open>The pandas and numpy computations the operations rely on.\<close>

record ('c, 'n) stats =
  series_mean :: "'c \<Rightarrow> 'n"
  corr_columns :: "'c frame \<Rightarrow> string list"
  corr_exceeds :: "'c frame \<Rightarrow> 'n \<Rightarrow> string \<Rightarrow> bool"

fun frame_arg :: "('c, 'n) drop_op \<Rightarrow> 'c df_arg" where
  "frame_arg (DropCols df_arg prefixes cols) = df_arg"
| "frame_arg (DropInfrequent df_arg bools threshold) = df_arg"
| "frame_arg (DropCorrelated df_arg cols threshold) = df_arg"

fun apply_drop :: "('c, 'n::ord) stats \<Rightarrow> 'c data \<Rightarrow> ('c, 'n) drop_op \<Rightarrow> 'c dropped" where
  "apply_drop st self (DropCols df_arg prefixes cols) = drop_cols self df_arg prefixes cols"
| "apply_drop st self (DropInfrequent df_arg bools threshold) =
     drop_infrequent_cols (series_mean st) self df_arg bools threshold"
| "apply_drop st self (DropCorrelated df_arg cols threshold) =
     drop_highly_correlated_cols (corr_columns st) (corr_exceeds st) self df_arg cols threshold"

text \<open>The labels of a frame that may be absent, and the labels a call removed.\<close>

definition labels :: "'c frame option \<Rightarrow> string list" where
  "labels w = (case w of None \<Rightarrow> [] | Some d \<Rightarrow> columns d)"

definition removed :: "'c frame option \<Rightarrow> 'c frame option \<Rightarrow> string list" where
  "removed before after = filter (\<lambda>c. c \<notin> set (labels after)) (labels before)"

text \<open>
  A run of operations, one after the other, whether or not one of them raised (the
  caller may catch the exception and go on): the object at the end and, per
  operation, the labels it removed from the frame it worked on.
\<close>

fun run_drops ::
  "('c, 'n::ord) stats \<Rightarrow> 'c data \<Rightarrow> ('c, 'n) drop_op list \<Rightarrow> 'c data \<times> string list list" where
  "run_drops st self [] = (self, [])"
| "run_drops st self (op # ops) =
     (case apply_drop st self op of
        (after, self', e) \<Rightarrow>
          (case run_drops st self' ops of
             (final, rs) \<Rightarrow> (final, removed (resolve_arg self (frame_arg op)) after # rs)))"


text \<open>
  What one call does to the frame it works on and to the audit trail: the labels in
  \<open>app\<close> are appended, they were columns of the frame, and the frame loses exactly the
  columns under them.
\<close>

definition appended ::
  "'c frame option \<Rightarrow> 'c frame option \<Rightarrow> string list \<Rightarrow> string list \<Rightarrow> string list \<Rightarrow> bool" where
  "appended before after dc dc' app \<longleftrightarrow>
     dc' = dc @ app \<and> set app \<subseteq> set (labels before)
     \<and> after = map_option (filter (\<lambda>c. fst c \<notin> set app)) before"


text \<open>The pandas computations for concrete runs: a series is a number, its own mean.\<close>

definition stats0 :: "(nat, nat) stats" where
  "stats0 = \<lparr>series_mean = (\<lambda>n. n), corr_columns = columns,
              corr_exceeds = (\<lambda>d threshold c. c = ''b'')\<rparr>"


section \<open>ParameterBuilder and Parameters (simplify/creator/content.py)\<close>

text \<open>
  \<open>outline.selected\<close>: false or \<open>None\<close>, \<open>True\<close> (select the keys of
  \<open>outline.default\<close>), or a list of keys.
\<close>

datatype selection = Unselected | SelectDefaults | SelectKeys "string list"

fun selection_truthy :: "selection \<Rightarrow> bool" where
  "selection_truthy Unselected = False"
| "selection_truthy SelectDefaults = True"
| "selection_truthy (SelectKeys ks) = (ks \<noteq> [])"

text \<open>
  The attributes of an \<open>Outline\<close> that the builder reads.  \<open>required\<close>, \<open>runtime\<close> and
  \<open>data_dependent\<close> may be \<open>None\<close>; \<open>conditional\<close> stands for the test
  \<open>'conditional' in outline\<close>.
\<close>

record 'v outline =
  outline_name :: string
  selected :: selection
  default_parameters :: "'v dict"
  required :: "'v dict option"
  runtime :: "string dict option"
  conditional :: bool
  data_dependent :: "string dict option"

text \<open>
  The builder: \<open>idea_parameters\<close> (\<open>None\<close>: the attribute does not exist), the
  attributes of \<open>self.author\<close> (\<open>None\<close>: no author), the \<open>_build_conditional\<close> method of
  \<open>self._parent\<close> (\<open>None\<close>: no parent, or a parent without the method) and the bunch
  under construction.
\<close>

record 'v parameter_builder =
  idea_parameters :: "'v dict option"
  author :: "'v dict option"
  parent_conditional :: "(string \<Rightarrow> 'v dict \<Rightarrow> 'v dict) option"
  bunch :: "'v dict"

text \<open>\<open>_build_idea\<close>: a fresh bunch, updated with \<open>idea_parameters\<close> when they exist.\<close>

definition build_idea :: "'v parameter_builder \<Rightarrow> 'v outline \<Rightarrow> 'v parameter_builder" where
  "build_idea self outline =
     self\<lparr>bunch := (case idea_parameters self of None \<Rightarrow> [] | Some ps \<Rightarrow> dict_update [] ps)\<rparr>"

text \<open>\<open>_build_selected\<close>: keeps the items of the bunch whose key is selected.\<close>

definition build_selected :: "'v parameter_builder \<Rightarrow> 'v outline \<Rightarrow> 'v parameter_builder" where
  "build_selected self outline =
     (if selection_truthy (selected outline) then
        (let parameters_to_use =
               (case selected outline of
                  SelectKeys ks \<Rightarrow> ks
                | _ \<Rightarrow> map fst (default_parameters outline))
         in self\<lparr>bunch :=
              fold (\<lambda>(key, value) new_parameters.
                      if key \<in> set parameters_to_use
                      then AList.update key value new_parameters else new_parameters)
                (bunch self) []\<rparr>)
      else self)"

text \<open>
  \<open>_build_required\<close>: \<open>self.bunch.update(outline.required)\<close>; the \<open>TypeError\<close> of
  updating with \<open>None\<close> is passed over.
\<close>

definition build_required :: "'v parameter_builder \<Rightarrow> 'v outline \<Rightarrow> 'v parameter_builder" where
  "build_required self outline =
     (case required outline of
        None \<Rightarrow> self
      | Some r \<Rightarrow> self\<lparr>bunch := dict_update (bunch self) r\<rparr>)"

text \<open>
  The loop of \<open>_build_runtime\<close>.  A value that is not an attribute of the author ends
  the loop: the handler's own \<open>' '.join(...)\<close> raises, and the outer \<open>except\<close> passes
  over that.
\<close>

fun runtime_loop :: "'v dict option \<Rightarrow> string dict \<Rightarrow> 'v dict \<Rightarrow> 'v dict" where
  "runtime_loop a [] b = b"
| "runtime_loop a ((key, value) # rest) b =
     (case a of
        None \<Rightarrow> b
      | Some attrs \<Rightarrow>
          (case map_of attrs value of
             None \<Rightarrow> b
           | Some x \<Rightarrow> runtime_loop a rest (AList.update key x b)))"

definition build_runtime :: "'v parameter_builder \<Rightarrow> 'v outline \<Rightarrow> 'v parameter_builder" where
  "build_runtime self outline =
     (case runtime outline of
        None \<Rightarrow> self
      | Some rt \<Rightarrow> self\<lparr>bunch := runtime_loop (author self) rt (bunch self)\<rparr>)"

text \<open>\<open>_build_conditional\<close>\<close>

definition build_conditional :: "'v parameter_builder \<Rightarrow> 'v outline \<Rightarrow> 'v parameter_builder" where
  "build_conditional self outline =
     (if conditional outline then
        (case parent_conditional self of
           None \<Rightarrow> self
         | Some f \<Rightarrow> self\<lparr>bunch := f (outline_name outline) (bunch self)\<rparr>)
      else self)"

text \<open>\<open>draft\<close>: the parameter types, in order (\<open>'search'\<close> is commented out).\<close>

definition parameter_types :: "string list" where
  "parameter_types = [''idea'', ''selected'', ''required'', ''runtime'', ''conditional'']"

text \<open>
  One pass of the loop of \<open>apply\<close>:
  \<open>getattr(self, '_'.join(['_build', parameter_type]))\<close>, called with \<open>data\<close> only for
  \<open>'data_dependent'\<close>.  The class has no \<open>_build_data_dependent\<close>, so that
  \<open>getattr\<close> raises \<open>AttributeError\<close>, as it does for any other name without a method.
  \<open>_build_search\<close> exists but is not modelled; \<open>draft\<close> never lists it.
\<close>

definition build_stage ::
  "string \<Rightarrow> 'v parameter_builder \<Rightarrow> 'v outline \<Rightarrow> 'v dict option
     \<Rightarrow> error + 'v parameter_builder" where
  "build_stage parameter_type self outline data_obj =
     (if parameter_type = ''data_dependent'' then Inl AttributeError
      else if parameter_type = ''idea'' then Inr (build_idea self outline)
      else if parameter_type = ''selected'' then Inr (build_selected self outline)
      else if parameter_type = ''required'' then Inr (build_required self outline)
      else if parameter_type = ''runtime'' then Inr (build_runtime self outline)
      else if parameter_type = ''conditional'' then Inr (build_conditional self outline)
      else if parameter_type = ''search'' then Inl (ExternalError ''_build_search'')
      else Inl AttributeError)"

fun apply_stages ::
  "string list \<Rightarrow> 'v parameter_builder \<Rightarrow> 'v outline \<Rightarrow> 'v dict option
     \<Rightarrow> error + 'v parameter_builder" where
  "apply_stages [] self outline data_obj = Inr self"
| "apply_stages (parameter_type # rest) self outline data_obj =
     (case build_stage parameter_type self outline data_obj of
        Inl e \<Rightarrow> Inl e
      | Inr self' \<Rightarrow> apply_stages rest self' outline data_obj)"

text \<open>
  \<open>ParameterBuilder.apply(outline, data)\<close>; \<open>data_obj\<close> holds the attributes of the
  data object, \<open>None\<close> when no object is passed.
\<close>

definition parameter_builder_apply ::
  "'v parameter_builder \<Rightarrow> 'v outline \<Rightarrow> 'v dict option \<Rightarrow> error + 'v parameter_builder" where
  "parameter_builder_apply self outline data_obj =
     apply_stages parameter_types self outline data_obj"

text \<open>
  The \<open>Parameters\<close> dataclass: its fields are \<open>parameters\<close>, \<open>page\<close> and
  \<open>data_dependent\<close>, and \<open>__post_init__\<close> adds \<open>name\<close>.  The mapping methods do not
  serve attribute access, so any other attribute raises \<open>AttributeError\<close>.
\<close>

record 'v parameters_obj =
  parameters :: "'v dict"
  page :: "string option"
  parameters_data_dependent :: "string dict option"

definition parameters_dict_attribute :: "'v parameters_obj \<Rightarrow> string \<Rightarrow> error + string dict option" where
  "parameters_dict_attribute self a =
     (if a = ''data_dependent'' then Inr (parameters_data_dependent self)
      else Inl AttributeError)"

text \<open>
  \<open>Parameters.apply(data)\<close>.  Its first statement reads \<open>self.data_dependents\<close>.
  The loop body passes the set \<open>{key, getattr(data, value)}\<close> to \<open>dict.update\<close>;
  what that does is left to \<open>update_with_set\<close>.
\<close>

fun data_dependent_loop ::
  "('v dict \<Rightarrow> string \<Rightarrow> 'v \<Rightarrow> error + 'v dict) \<Rightarrow> string dict \<Rightarrow> 'v dict option \<Rightarrow> 'v dict
     \<Rightarrow> error + 'v dict" where
  "data_dependent_loop update_with_set [] data_obj ps = Inr ps"
| "data_dependent_loop update_with_set ((key, value) # rest) data_obj ps =
     (case data_obj of
        None \<Rightarrow> Inl AttributeError
      | Some attrs \<Rightarrow>
          (case map_of attrs value of
             None \<Rightarrow> Inl AttributeError
           | Some x \<Rightarrow>
               (case update_with_set ps key x of
                  Inl e \<Rightarrow> if e = KeyError
                           then data_dependent_loop update_with_set rest data_obj ps
                           else Inl e
                | Inr ps' \<Rightarrow> data_dependent_loop update_with_set rest data_obj ps')))"

definition parameters_apply ::
  "('v dict \<Rightarrow> string \<Rightarrow> 'v \<Rightarrow> error + 'v dict) \<Rightarrow> 'v parameters_obj \<Rightarrow> 'v dict option
     \<Rightarrow> error + 'v dict" where
  "parameters_apply update_with_set self data_obj =
     (case parameters_dict_attribute self ''data_dependents'' of
        Inl e \<Rightarrow> Inl e
      | Inr None \<Rightarrow> Inr (parameters self)
      | Inr (Some dd) \<Rightarrow> data_dependent_loop update_with_set dd data_obj (parameters self))"

text \<open>A builder, an outline naming a data-dependent parameter, and a data object.\<close>

definition builder0 :: "int parameter_builder" where
  "builder0 = \<lparr>idea_parameters = Some [(''copy'', 5), (''threshold'', 3)],
     author = Some [(''seed'', 42)], parent_conditional = None, bunch = []\<rparr>"

definition outline0 :: "int outline" where
  "outline0 = \<lparr>outline_name = ''scaler'', selected = Unselected,
     default_parameters = [(''copy'', 1)], required = Some [(''copy'', 0)],
     runtime = Some [(''random_state'', ''seed'')], conditional = False,
     data_dependent = Some [(''n_features'', ''n_cols'')]\<rparr>"

definition data_obj0 :: "int dict" where
  "data_obj0 = [(''n_cols'', 10)]"


section \<open>The summary table\<close>

subsection \<open>Summarize.draft (simplify/summarize.py)\<close>

text \<open>
  An \<open>Option\<close> as \<open>draft\<close> writes it: \<open>name\<close>, \<open>module\<close>, \<open>algorithm\<close> and the
  \<open>required\<close> keyword arguments (none when the keyword is left out).  The values
  are decimal constants, kept exact, or strings.
\<close>

datatype option_value = Number rat | Text string

record technique_option =
  option_name :: string
  option_module :: string
  algorithm :: string
  option_required :: "option_value dict"

definition summarize_options :: "technique_option dict" where
  "summarize_options =
     [(''count'', \<lparr>option_name = ''count'', option_module = ''numpy.ndarray'',
          algorithm = ''size'', option_required = []\<rparr>),
      (''min'', \<lparr>option_name = ''minimum'', option_module = ''numpy'',
          algorithm = ''nanmin'', option_required = []\<rparr>),
      (''q1'', \<lparr>option_name = ''quantile1'', option_module = ''numpy'',
          algorithm = ''nanquantile'', option_required = [(''q'', Number (25 / 100))]\<rparr>),
      (''median'', \<lparr>option_name = ''median'', option_module = ''numpy'',
          algorithm = ''nanmedian'', option_required = []\<rparr>),
      (''q3'', \<lparr>option_name = ''quantile3'', option_module = ''numpy'',
          algorithm = ''nanquantile'', option_required = [(''q'', Number (25 / 100))]\<rparr>),
      (''max'', \<lparr>option_name = '''', option_module = ''numpy'',
          algorithm = ''nanmax'', option_required = []\<rparr>),
      (''mad'', \<lparr>option_name = ''median absoluate deviation'', option_module = ''scipy.stats'',
          algorithm = ''median_absolute_deviation'',
          option_required = [(''nan_policy'', Text ''omit'')]\<rparr>),
      (''mean'', \<lparr>option_name = ''mean'', option_module = ''numpy'',
          algorithm = ''nanmean'', option_required = []\<rparr>),
      (''std'', \<lparr>option_name = ''standard deviation'', option_module = ''numpy'',
          algorithm = ''nanstd'', option_required = []\<rparr>),
      (''standard_error'', \<lparr>option_name = ''standard_error'', option_module = ''scipy.stats'',
          algorithm = ''sem'', option_required = [(''nan_policy'', Text ''omit'')]\<rparr>),
      (''geometric_mean'', \<lparr>option_name = ''geometric_mean'', option_module = ''scipy.stats'',
          algorithm = ''gmean'', option_required = []\<rparr>),
      (''geometric_std'', \<lparr>option_name = ''geometric_standard_deviation'',
          option_module = ''scipy.stats'', algorithm = ''gstd'', option_required = []\<rparr>),
      (''harmonic_mean'', \<lparr>option_name = ''harmonic_mean'', option_module = ''scipy.stats'',
          algorithm = ''hmean'', option_required = []\<rparr>),
      (''mode'', \<lparr>option_name = ''mode'', option_module = ''scipy.stats'',
          algorithm = ''mode'', option_required = [(''nan_policy'', Text ''omit'')]\<rparr>),
      (''sum'', \<lparr>option_name = ''sum'', option_module = ''numpy'',
          algorithm = ''nansum'', option_required = []\<rparr>),
      (''kurtosis'', \<lparr>option_name = ''kurtosis'', option_module = ''scipy.stats'',
          algorithm = ''kurtosis'', option_required = [(''nan_policy'', Text ''omit'')]\<rparr>),
      (''skew'', \<lparr>option_name = ''skew'', option_module = ''scipy.stats'',
          algorithm = ''skew'', option_required = [(''nan_policy'', Text ''omit'')]\<rparr>),
      (''variance'', \<lparr>option_name = ''variance'', option_module = ''numpy'',
          algorithm = ''nanvar'', option_required = []\<rparr>),
      (''variation'', \<lparr>option_name = ''variation'', option_module = ''scipy.stats'',
          algorithm = ''variation'', option_required = [(''nan_policy'', Text ''omit'')]\<rparr>),
      (''unique'', \<lparr>option_name = ''unique_values'', option_module = ''numpy'',
          algorithm = ''nunique'', option_required = []\<rparr>)]"


subsection \<open>Data.summarize (ml_funnel/data.py)\<close>

text \<open>
  The kind of a series' dtype, \<open>dtype.kind\<close>: \<open>b\<close>, \<open>i\<close>, \<open>u\<close>, \<open>f\<close>, \<open>c\<close>, or any
  other.
\<close>

datatype dtype = DBool | DInt | DUnsigned | DFloat | DComplex | DOther

text \<open>\<open>dtype.kind in 'bifcu'\<close>\<close>

fun kind_in_bifcu :: "dtype \<Rightarrow> bool" where
  "kind_in_bifcu DOther = False"
| "kind_in_bifcu _ = True"

text \<open>
  What pandas computes from a series: its dtype, \<open>astype(int)\<close>, its length and the
  statistics.  \<open>quantile\<close> takes the fraction; \<open>mode_first\<close> is \<open>mode()[0]\<close>, which
  raises when the series has no mode.
\<close>

record ('c, 'n) series_ops =
  series_dtype :: "'c \<Rightarrow> dtype"
  astype_int :: "'c \<Rightarrow> 'c"
  series_len :: "'c \<Rightarrow> nat"
  series_min :: "'c \<Rightarrow> 'n"
  series_quantile :: "rat \<Rightarrow> 'c \<Rightarrow> 'n"
  series_median :: "'c \<Rightarrow> 'n"
  series_max :: "'c \<Rightarrow> 'n"
  series_mad :: "'c \<Rightarrow> 'n"
  series_std :: "'c \<Rightarrow> 'n"
  series_avg :: "'c \<Rightarrow> 'n"
  mode_first :: "'c \<Rightarrow> error + 'n"
  series_sum :: "'c \<Rightarrow> 'n"

text \<open>
  A row of the summary, one field per entry of \<open>summary_cols\<close>; a statistic that was
  not assigned stays empty (\<open>None\<close>).
\<close>

record 'n summary_row =
  variable :: string
  data_type :: dtype
  row_count :: nat
  row_min :: "'n option"
  row_q1 :: "'n option"
  row_median :: "'n option"
  row_q3 :: "'n option"
  row_max :: "'n option"
  row_mad :: "'n option"
  row_mean :: "'n option"
  row_stan_dev :: "'n option"
  row_mode :: "'n option"
  row_sum :: "'n option"

text \<open>\<open>df[col] = series\<close> for a column that exists.\<close>

definition set_column :: "string \<Rightarrow> 'c \<Rightarrow> 'c frame \<Rightarrow> 'c frame" where
  "set_column col series d = map (\<lambda>(l, s). if l = col then (l, series) else (l, s)) d"

text \<open>
  The body of the loop for one column: the frame after it (a boolean column is
  replaced by its integer version), and the row, or the exception raised.
\<close>

definition summarize_column ::
  "('c, 'n) series_ops \<Rightarrow> string \<Rightarrow> 'c frame \<Rightarrow> 'c frame \<times> (error + 'n summary_row)" where
  "summarize_column ops col d =
     (case map_of d col of
        None \<Rightarrow> (d, Inl KeyError)
      | Some series \<Rightarrow>
          (let new_row = \<lparr>variable = col, data_type = series_dtype ops series,
                 row_count = series_len ops series, row_min = None, row_q1 = None,
                 row_median = None, row_q3 = None, row_max = None, row_mad = None,
                 row_mean = None, row_stan_dev = None, row_mode = None, row_sum = None\<rparr>;
               series' = (if series_dtype ops series = DBool then astype_int ops series
                          else series);
               d' = (if series_dtype ops series = DBool then set_column col series' d else d)
           in if kind_in_bifcu (series_dtype ops series') then
                (case mode_first ops series' of
                   Inl e \<Rightarrow> (d', Inl e)
                 | Inr m \<Rightarrow>
                     (d', Inr (new_row\<lparr>
                        row_min := Some (series_min ops series'),
                        row_q1 := Some (series_quantile ops (25 / 100) series'),
                        row_median := Some (series_median ops series'),
                        row_q3 := Some (series_quantile ops (75 / 100) series'),
                        row_max := Some (series_max ops series'),
                        row_mad := Some (series_mad ops series'),
                        row_mean := Some (series_avg ops series'),
                        row_stan_dev := Some (series_std ops series'),
                        row_mode := Some m,
                        row_sum := Some (series_sum ops series')\<rparr>)))
              else (d', Inr new_row)))"

text \<open>The loop over \<open>df.columns\<close>: the frame and the rows so far, and the exception, if any.\<close>

fun summarize_loop ::
  "('c, 'n) series_ops \<Rightarrow> string list \<Rightarrow> 'c frame \<Rightarrow> 'n summary_row list
     \<Rightarrow> 'c frame \<times> 'n summary_row list \<times> error option" where
  "summarize_loop ops [] d rows = (d, rows, None)"
| "summarize_loop ops (col # cols) d rows =
     (case summarize_column ops col d of
        (d', Inl e) \<Rightarrow> (d', rows, Some e)
      | (d', Inr new_row) \<Rightarrow> summarize_loop ops cols d' (rows @ [new_row]))"

text \<open>
  \<open>Data.summarize\<close> on the frame it works on: the frame afterwards, the table
  assigned to \<open>self.summary\<close> and the exception, if any.  The rows are sorted by
  \<open>variable\<close> once the loop is through.  Handing the table to \<open>save\<close> when an
  \<open>export_path\<close> is given is file output and is not modelled.
\<close>

definition data_summarize ::
  "('c, 'n) series_ops \<Rightarrow> 'c frame option
     \<Rightarrow> 'c frame option \<times> 'n summary_row list \<times> error option" where
  "data_summarize ops w =
     (case w of
        None \<Rightarrow> (None, [], Some AttributeError)
      | Some d \<Rightarrow>
          (case summarize_loop ops (columns d) d [] of
             (d', rows, Some e) \<Rightarrow> (Some d', rows, Some e)
           | (d', rows, None) \<Rightarrow> (Some d', sort_key variable rows, None)))"

text \<open>
  Series operations for concrete runs: a series is a number, \<open>0\<close> standing for a
  column of strings; every statistic is a multiple of the number.
\<close>

definition series_ops0 :: "(nat, rat) series_ops" where
  "series_ops0 =
     \<lparr>series_dtype = (\<lambda>n. if n = 0 then DOther else DInt),
      astype_int = (\<lambda>n. n),
      series_len = (\<lambda>n. 5),
      series_min = (\<lambda>n. 0),
      series_quantile = (\<lambda>q n. q * of_nat n),
      series_median = (\<lambda>n. of_nat n / 2),
      series_max = (\<lambda>n. of_nat n),
      series_mad = (\<lambda>n. 1),
      series_std = (\<lambda>n. 1),
      series_avg = (\<lambda>n. of_nat n / 2),
      mode_first = (\<lambda>n. Inr 0),
      series_sum = (\<lambda>n. 5 * of_nat n / 2)\<rparr>"


section \<open>The settings and the \<open>parallelize\<close> flag\<close>

subsection \<open>Classify._get_conditional_options (simplify/chef/steps/techniques/classify.py)\<close>

text \<open>
  \<open>if self.idea['general']['gpu']: self.options.update({...})\<close>: the options of the
  step, each a module and a class name, and the exception of a missing key.
\<close>

definition get_conditional_options :: "settings \<Rightarrow> string list dict \<Rightarrow> error + string list dict" where
  "get_conditional_options idea options =
     (case settings_item (Some idea) ''general'' ''gpu'' of
        Inl e \<Rightarrow> Inl e
      | Inr v \<Rightarrow>
          Inr (if truthy v then
                 dict_update options
                   [(''forest_inference'', [''cuml'', ''ForestInference'']),
                    (''random_forest'', [''cuml'', ''RandomForestClassifier'']),
                    (''logit'', [''cuml'', ''LogisticRegression''])]
               else options))"


subsection \<open>Author._build_steps (simplify/core/author.py)\<close>

text \<open>
  \<open>return listify(self.idea['_'.join([name, 'steps'])])\<close> inside a \<open>try\<close> whose
  handler is for \<open>AttributeError\<close> only: a \<open>KeyError\<close> of the subscript leaves the
  method.  The subscript yields a whole section, so this \<open>listify\<close> takes a section.
\<close>

definition build_steps :: "(settings_section \<Rightarrow> pyval list) \<Rightarrow> settings \<Rightarrow> string \<Rightarrow> error + pyval list" where
  "build_steps listify_section idea sect =
     (case getitem idea (join_underscore sect ''steps'') of
        Inl e \<Rightarrow> Inl e
      | Inr sec \<Rightarrow> Inr (listify_section sec))"


subsection \<open>Project._initialize_workers (simplify/core/project.py)\<close>

text \<open>
  The \<open>workers\<close> argument: \<open>None\<close>, a list, or a dict.  The values of a dict are
  worker objects or, in the dict the method builds, values of the settings.
\<close>

datatype 'w workers = NoWorkers | WorkerList "pyval list" | WorkerDict "(pyval + 'w) dict"

text \<open>\<open>not workers\<close> is true of \<open>None\<close>, of an empty list and of an empty dict.\<close>

fun workers_truthy :: "'w workers \<Rightarrow> bool" where
  "workers_truthy NoWorkers = False"
| "workers_truthy (WorkerList ps) = (ps \<noteq> [])"
| "workers_truthy (WorkerDict d) = (d \<noteq> [])"

text \<open>
  The attributes of a \<open>Project\<close> the method reads or assigns: \<open>idea\<close>, \<open>workers\<close>,
  \<open>options\<close> (\<open>None\<close>: not assigned yet) and the lower-case name of its class.
\<close>

record 'w project =
  project_idea :: settings
  project_workers :: "'w workers"
  project_options :: "settings_section option"
  class_name_lower :: string

text \<open>
  \<open>utilities.listify(self.idea[outer_key][inner_key])\<close> with
  \<open>inner_key = f'{outer_key}_workers'\<close>.
\<close>

definition configured_workers :: "(pyval \<Rightarrow> pyval list) \<Rightarrow> settings \<Rightarrow> string \<Rightarrow> error + pyval list" where
  "configured_workers listify idea outer_key =
     (case getitem idea outer_key of
        Inl e \<Rightarrow> Inl e
      | Inr sec \<Rightarrow>
          (case getitem sec (join_underscore outer_key ''workers'') of
             Inl e \<Rightarrow> Inl e
           | Inr v \<Rightarrow> Inr (listify v)))"

text \<open>
  \<open>{p: self.options[p] for p in workers}\<close>: the keys of \<open>options\<close> are strings, so
  a string is looked up, a list cannot be hashed (\<open>TypeError\<close>) and any other value is
  not a key (\<open>KeyError\<close>).  A key met again keeps its place in the dict.
\<close>

fun new_workers :: "settings_section \<Rightarrow> pyval list \<Rightarrow> (pyval + 'w) dict \<Rightarrow> error + (pyval + 'w) dict" where
  "new_workers options [] acc = Inr acc"
| "new_workers options (PStr k # ps) acc =
     (case getitem options k of
        Inl e \<Rightarrow> Inl e
      | Inr v \<Rightarrow> new_workers options ps (AList.update k (Inl v) acc))"
| "new_workers options (PList vs # ps) acc = Inl TypeError"
| "new_workers options (p # ps) acc = Inl KeyError"

text \<open>
  The method: the object afterwards (with \<open>options\<close> assigned once
  \<open>self.idea['workers']\<close> was read) and the dict returned or the exception.  A
  \<open>KeyError\<close> in the \<open>try\<close> leaves \<open>workers\<close> as passed; iterating over \<open>None\<close>
  raises \<open>TypeError\<close>.
\<close>

definition initialize_workers ::
  "(pyval \<Rightarrow> pyval list) \<Rightarrow> 'w project \<Rightarrow> 'w workers \<Rightarrow> 'w project \<times> (error + 'w workers)" where
  "initialize_workers listify self workers =
     (case getitem (project_idea self) ''workers'' of
        Inl e \<Rightarrow> (self, Inl e)
      | Inr opts \<Rightarrow>
          (let workers1 =
                 (if workers_truthy workers then workers
                  else (case configured_workers listify (project_idea self) (class_name_lower self) of
                          Inl e \<Rightarrow> workers
                        | Inr ws \<Rightarrow> WorkerList ws))
           in (self\<lparr>project_options := Some opts\<rparr>,
               (case workers1 of
                  WorkerDict d \<Rightarrow> Inr (WorkerDict d)
                | NoWorkers \<Rightarrow> Inl TypeError
                | WorkerList ps \<Rightarrow>
                    (case new_workers opts ps [] of
                       Inl e \<Rightarrow> Inl e
                     | Inr nw \<Rightarrow> Inr (if nw \<noteq> [] then WorkerDict nw else project_workers self))))))"


subsection \<open>Runs that differ in the flag\<close>

text \<open>
  The settings with the value of \<open>'parallelize'\<close> in section \<open>'general'\<close> replaced by
  \<open>v\<close>.  Settings that do not hold the flag stay as they are, so \<open>s\<close> and
  \<open>set_parallelize v s\<close> differ at most in the value of the flag.
\<close>

definition set_parallelize :: "pyval \<Rightarrow> settings \<Rightarrow> settings" where
  "set_parallelize v s =
     (case map_of s ''general'' of
        None \<Rightarrow> s
      | Some g \<Rightarrow>
          (case map_of g ''parallelize'' of
             None \<Rightarrow> s
           | Some _ \<Rightarrow> AList.update ''general'' (AList.update ''parallelize'' v g) s))"

text \<open>
  The operations that run under settings: constructing a \<open>Data\<close> object, the
  methods of a \<open>Data\<close> object that holds the settings, the step and technique
  expansion of the author, the conditional options of a step and the initialization
  of the workers of a project.
\<close>

datatype ('c, 'n, 'w) operation =
    Construct "'c pandas" "'c data_fields"
  | Load "'c pandas" "'c data" load_args
  | ColumnTypes "'c data" "'c frame option" column_args
  | Drop "('c, 'n) stats" "'c data" "('c, 'n) drop_op"
  | BuildSteps "settings_section \<Rightarrow> pyval list" string
  | BuildTechniques "string list" "pyval \<Rightarrow> pyval list" string "string list"
  | ConditionalOptions "string list dict"
  | InitializeWorkers "pyval \<Rightarrow> pyval list" "'w project" "'w workers"

text \<open>What a run shows: the value returned or the exception, and the object afterwards.\<close>

datatype ('c, 'w) observation =
    Constructed "error + 'c data"
  | Loaded "'c data \<times> (error + 'c returned)"
  | Typed "'c data \<times> error option"
  | Dropped "'c dropped"
  | Steps "error + pyval list"
  | Plans "error + pyval list list"
  | Options "error + string list dict"
  | Initialized "'w project \<times> (error + 'w workers)"

text \<open>A run of an operation under the settings \<open>s\<close>.\<close>

fun run :: "settings \<Rightarrow> ('c, 'n::ord, 'w) operation \<Rightarrow> ('c, 'w) observation" where
  "run s (Construct pd given) = Constructed (post_init pd (given\<lparr>settings := Some s\<rparr>))"
| "run s (Load pd self a) = Loaded (data_load pd (self\<lparr>settings := Some s\<rparr>) a)"
| "run s (ColumnTypes self df_arg a) = Typed (column_types (self\<lparr>settings := Some s\<rparr>) df_arg a)"
| "run s (Drop st self op) = Dropped (apply_drop st (self\<lparr>settings := Some s\<rparr>) op)"
| "run s (BuildSteps listify_section sect) = Steps (build_steps listify_section s sect)"
| "run s (BuildTechniques globals listify sect steps) =
     Plans (build_techniques globals listify s sect steps)"
| "run s (ConditionalOptions options) = Options (get_conditional_options s options)"
| "run s (InitializeWorkers listify self workers) =
     Initialized (initialize_workers listify (self\<lparr>project_idea := s\<rparr>) workers)"

text \<open>
  An object keeps the settings it was given, flag included.  Two final states are
  the same apart from that stored flag when they agree once the flag is blanked.
\<close>

definition blank_flag :: "'c data \<Rightarrow> 'c data" where
  "blank_flag self = self\<lparr>settings := map_option (set_parallelize PNone) (settings self)\<rparr>"

definition blank_project :: "'w project \<Rightarrow> 'w project" where
  "blank_project self = self\<lparr>project_idea := set_parallelize PNone (project_idea self)\<rparr>"

fun blank :: "('c, 'w) observation \<Rightarrow> ('c, 'w) observation" where
  "blank (Constructed r) = Constructed (map_sum id blank_flag r)"
| "blank (Loaded (self, r)) = Loaded (blank_flag self, r)"
| "blank (Typed (self, e)) = Typed (blank_flag self, e)"
| "blank (Dropped (after, self, e)) = Dropped (after, blank_flag self, e)"
| "blank (Steps r) = Steps r"
| "blank (Plans ps) = Plans ps"
| "blank (Options r) = Options r"
| "blank (Initialized (self, r)) = Initialized (blank_project self, r)"

text \<open>Settings that ask for a quick start, and a filer, for concrete runs.\<close>

definition idea1 :: settings where
  "idea1 =
     [(''general'', [(''verbose'', PBool True), (''parallelize'', PBool True), (''seed'', PInt 7),
                    (''gpu'', PBool False)]),
      (''files'', [(''data_in'', PStr ''csv''), (''test_data'', PBool False),
                  (''test_chunk'', PInt 500), (''encoding'', PStr ''utf-8'')])]"

definition filer0 :: filer where
  "filer0 = \<lparr>filer_import_folder = ''in'', filer_data_file_in = ''in/data.csv'',
              filer_make_path = (\<lambda>folder file_name file_type. Inr (folder @ ''/'' @ file_name))\<rparr>"

text \<open>Settings of a project with two workers, and the project, for concrete runs.\<close>

definition idea2 :: settings where
  "idea2 =
     [(''general'', [(''verbose'', PBool True), (''parallelize'', PBool True), (''seed'', PInt 7),
                    (''gpu'', PBool False)]),
      (''project'', [(''project_workers'', PList [PStr ''wrangler'', PStr ''analyst''])]),
      (''workers'', [(''wrangler'', PStr ''simplify.wrangler''), (''analyst'', PStr ''simplify.analyst''),
                    (''critic'', PStr ''simplify.critic'')])]"

definition project0 :: "unit project" where
  "project0 = \<lparr>project_idea = [], project_workers = WorkerDict [], project_options = None,
                 class_name_lower = ''project''\<rparr>"

section \<open>Properties of technique expansion\<close>

subsection \<open>The Cartesian product\<close>

lemma length_product_iter: "length (product_iter xss) = prod_list (map length xss)"
proof (induction xss)
  case Nil
  show ?case by simp
next
  case (Cons xs xss)
  have "length (concat (map (\<lambda>x. map (\<lambda>p. x # p) (product_iter xss)) xs))
        = length xs * length (product_iter xss)"
    by (induction xs) simp_all
  with Cons show ?case by simp
qed

lemma set_product_iter:
  "set (product_iter xss) =
     {p. length p = length xss \<and> (\<forall>i < length xss. p ! i \<in> set (xss ! i))}"
proof (induction xss)
  case Nil
  show ?case by auto
next
  case (Cons xs xss)
  note IH = Cons.IH
  show ?case
  proof (rule set_eqI)
    fix p
    show "p \<in> set (product_iter (xs # xss)) \<longleftrightarrow>
          p \<in> {p. length p = length (xs # xss) \<and>
                   (\<forall>i < length (xs # xss). p ! i \<in> set ((xs # xss) ! i))}"
    proof (cases p)
      case Nil
      then show ?thesis by auto
    next
      case (Cons a q)
      have "(\<forall>i < Suc (length xss). (a # q) ! i \<in> set ((xs # xss) ! i))
            \<longleftrightarrow> a \<in> set xs \<and> (\<forall>i < length xss. q ! i \<in> set (xss ! i))"
        by (simp add: All_less_Suc2)
      moreover have "a # q \<in> set (product_iter (xs # xss))
            \<longleftrightarrow> a \<in> set xs \<and> q \<in> set (product_iter xss)"
        by auto
      ultimately show ?thesis
        using IH Cons by auto
    qed
  qed
qed

lemma step_techniques_missing_section:
  "map_of idea sect = None \<Longrightarrow> step_techniques listify idea sect step = [PStr ''none'']"
  by (simp add: step_techniques_def getitem_def)

lemma step_techniques_missing_key:
  "map_of idea sect = Some sec \<Longrightarrow> map_of sec (join_underscore step ''techniques'') = None
   \<Longrightarrow> step_techniques listify idea sect step = [PStr ''none'']"
  by (simp add: step_techniques_def getitem_def)

lemma step_techniques_present:
  "map_of idea sect = Some sec \<Longrightarrow> map_of sec (join_underscore step ''techniques'') = Some v
   \<Longrightarrow> step_techniques listify idea sect step = listify v"
  by (simp add: step_techniques_def getitem_def)


text \<open>
  In a module that binds \<open>product\<close> (to \<open>itertools.product\<close>) the method returns
  the full Cartesian product of the per-step technique lists: the number of plans is
  the product of the lengths of the per-step lists, and the plans are exactly the
  lists that pick one technique of each step, in step order.
\<close>

lemma build_techniques_with_product:
  assumes "''product'' \<in> set globals"
  shows "\<exists>plans. build_techniques globals listify idea sect steps = Inr plans
     \<and> length plans
         = prod_list (map (\<lambda>step. length (step_techniques listify idea sect step)) steps)
     \<and> set plans
         = {plan. length plan = length steps \<and>
              (\<forall>i < length steps.
                 plan ! i \<in> set (step_techniques listify idea sect (steps ! i)))}"
proof -
  let ?plans = "product_iter (build_possibilities listify idea sect steps)"
  have "build_techniques globals listify idea sect steps = Inr ?plans"
    using assms by (simp add: build_techniques_def)
  moreover have "length ?plans
      = prod_list (map (\<lambda>step. length (step_techniques listify idea sect step)) steps)"
    by (simp add: build_possibilities_def length_product_iter comp_def)
  moreover have "set ?plans
      = {plan. length plan = length steps \<and>
          (\<forall>i < length steps.
             plan ! i \<in> set (step_techniques listify idea sect (steps ! i)))}"
    by (auto simp: build_possibilities_def set_product_iter)
  ultimately show ?thesis by blast
qed

lemma step_techniques_missing:
  "techniques_missing idea sect step \<Longrightarrow> step_techniques listify idea sect step = [PStr ''none'']"
  by (auto simp: techniques_missing_def step_techniques_def getitem_def split: option.splits)

lemma build_possibilities_example:
  "build_possibilities listify_plain idea0 ''chef'' [''scale'', ''split'', ''model'']
     = [[PStr ''minmax'', PStr ''normalize''], [PStr ''none''], [PStr ''xgboost'']]"
  by (simp add: build_possibilities_def step_techniques_def getitem_def idea0_def
        join_underscore_def)

text \<open>
  C1. As \<open>author.py\<close> is written, \<open>_build_techniques\<close> returns no Cartesian product:
  the module does not bind \<open>product\<close>, so every call, whatever the steps and the
  settings, raises \<open>NameError\<close> at the \<open>return\<close>, after the loop has filled
  \<open>possibilities\<close>.
\<close>

theorem build_techniques_raises_NameError:
  "''product'' \<notin> set author_globals
   \<and> build_techniques author_globals listify idea sect steps = Inl NameError
   \<and> build_possibilities listify_plain idea0 ''chef'' [''scale'', ''split'', ''model'']
       = [[PStr ''minmax'', PStr ''normalize''], [PStr ''none''], [PStr ''xgboost'']]
   \<and> build_techniques author_globals listify_plain idea0 ''chef'' [''scale'', ''split'', ''model'']
       = Inl NameError"
proof -
  have "''product'' \<notin> set author_globals"
    by (simp add: author_globals_def)
  then show ?thesis
    by (simp add: build_techniques_def build_possibilities_example)
qed


section \<open>Properties of the lazy loader\<close>

text \<open>
  A lookup in a module fails with a caught exception, unless the module name is empty
  or relative.
\<close>

lemma lookup_in_caught:
  "lookup_in mods m a = Inl e \<Longrightarrow> m \<noteq> [] \<Longrightarrow> take 1 m \<noteq> ''.'' \<Longrightarrow> caught e"
  by (auto simp: lookup_in_def import_module_def getattr_module_def
           split: option.splits sum.splits if_splits)

lemma load_self_after: "self_after (load mods self c) = self"
  by (simp add: load_def split: sum.splits pyobj.splits)

lemma load_not_string:
  assumes "getattr_self self c = Inr v" and "\<forall>s. v \<noteq> OStr s"
  shows "load mods self c = \<lparr>self_after = self, imported = [], outcome = Inr v\<rparr>"
  using assms by (cases v) (simp_all add: load_def)

lemma load_string_imports:
  assumes "getattr_self self c = Inr (OStr s)"
  shows "imported (load mods self c) \<noteq> [] \<and> hd (imported (load mods self c)) = module self"
  using assms by (simp add: load_def split: sum.splits)

text \<open>
  The outcome for a string-valued component, with module names that are neither empty
  nor relative: the three lookups in order; a missing entry of the
  \<open>default_components\<close> table leaves as a \<open>KeyError\<close>.
\<close>

lemma load_string_outcome:
  assumes "getattr_self self c = Inr (OStr s)"
    and "module self \<noteq> []" and "take 1 (module self) \<noteq> ''.''"
    and "default_module self \<noteq> []" and "take 1 (default_module self) \<noteq> ''.''"
  shows "outcome (load mods self c) =
     (case lookup_in mods (module self) s of
        Inr v \<Rightarrow> Inr v
      | Inl _ \<Rightarrow>
          (case lookup_in mods (default_module self) s of
             Inr v \<Rightarrow> Inr v
           | Inl _ \<Rightarrow>
               (case third_lookup mods self c of
                  Inr v \<Rightarrow> Inr v
                | Inl e \<Rightarrow>
                    if caught e then Inl (ImportError (not_found_message self s)) else Inl e)))"
  using assms by (auto simp: load_def dest: lookup_in_caught split: sum.splits)

text \<open>
  C4. At a string-valued component that neither module defines and for which the
  \<open>default_components\<close> table has no entry, \<open>load\<close> raises \<open>KeyError\<close>, not the
  \<open>ImportError\<close> its docstring promises.
\<close>

theorem load_missing_table_entry_raises_KeyError:
  "getattr_self loader0 ''algorithm'' = Inr (OStr ''Foo'')
   \<and> lookup_in mods_without_foo (module loader0) ''Foo'' = Inl AttributeError
   \<and> lookup_in mods_without_foo (default_module loader0) ''Foo'' = Inl AttributeError
   \<and> third_lookup mods_without_foo loader0 ''algorithm'' = Inl KeyError
   \<and> outcome (load mods_without_foo loader0 ''algorithm'') = Inl KeyError"
  by (simp add: load_def getattr_self_def loader0_def mods_without_foo_def lookup_in_def
        import_module_def getattr_module_def third_lookup_def getitem_def)

text \<open>
  C5, as stated, fails: after a successful \<open>load\<close> the instance still holds the string,
  a second \<open>load\<close> imports the module again, and its result follows the modules of the
  second call.
\<close>

theorem load_twice_imports_again:
  "outcome (load mods_with_foo loader0 ''algorithm'') = Inr (OObj 7)
   \<and> getattr_self (self_after (load mods_with_foo loader0 ''algorithm'')) ''algorithm''
       = Inr (OStr ''Foo'')
   \<and> imported (load mods_with_foo (self_after (load mods_with_foo loader0 ''algorithm''))
        ''algorithm'') \<noteq> []
   \<and> outcome (load mods_without_foo (self_after (load mods_with_foo loader0 ''algorithm''))
        ''algorithm'') \<noteq> Inr (OObj 7)"
  by (simp add: load_def getattr_self_def loader0_def mods_with_foo_def mods_without_foo_def
        lookup_in_def import_module_def getattr_module_def third_lookup_def getitem_def)

text \<open>
  C5, amended. \<open>load\<close> resolves a string-valued component when it is called and stores
  nothing on the instance: each call on a string-valued component imports again,
  starting with \<open>self.module\<close>.  Only a component that already holds a non-string object
  is returned as it is, without any import.
\<close>

theorem load_resolves_on_every_call:
  "self_after (load mods self c) = self
   \<and> (\<forall>s. getattr_self self c = Inr (OStr s) \<longrightarrow>
         imported (load mods self c) \<noteq> [] \<and> hd (imported (load mods self c)) = module self)
   \<and> (\<forall>v. getattr_self self c = Inr v \<and> (\<forall>s. v \<noteq> OStr s) \<longrightarrow>
         imported (load mods self c) = [] \<and> outcome (load mods self c) = Inr v)"
  using load_self_after [of mods self c] load_string_imports [of self c _ mods]
    load_not_string [of self c _ mods]
  by simp

theorem load_resolves_on_every_call_witness:
  "getattr_self loader0 ''algorithm'' = Inr (OStr ''Foo'')
   \<and> self_after (load mods_with_foo loader0 ''algorithm'') = loader0
   \<and> hd (imported (load mods_with_foo loader0 ''algorithm'')) = ''m1''
   \<and> getattr_self loader_loaded ''algorithm'' = Inr (OObj 7)
   \<and> imported (load mods_with_foo loader_loaded ''algorithm'') = []
   \<and> outcome (load mods_with_foo loader_loaded ''algorithm'') = Inr (OObj 7)"
proof -
  have a: "getattr_self loader0 ''algorithm'' = Inr (OStr ''Foo'')"
    by (simp add: getattr_self_def loader0_def)
  have b: "getattr_self loader_loaded ''algorithm'' = Inr (OObj 7)"
    by (simp add: getattr_self_def loader_loaded_def)
  have m: "module loader0 = ''m1''"
    by (simp add: loader0_def)
  from load_resolves_on_every_call [of mods_with_foo loader0 "''algorithm''"] a m
  have "self_after (load mods_with_foo loader0 ''algorithm'') = loader0
        \<and> hd (imported (load mods_with_foo loader0 ''algorithm'')) = ''m1''"
    by simp
  moreover
  from load_resolves_on_every_call [of mods_with_foo loader_loaded "''algorithm''"] b
  have "imported (load mods_with_foo loader_loaded ''algorithm'') = []
        \<and> outcome (load mods_with_foo loader_loaded ''algorithm'') = Inr (OObj 7)"
    by simp
  ultimately show ?thesis using a b by simp
qed


section \<open>Properties of Data initialisation and Data.load\<close>

lemma post_init_data0:
  "post_init pd (data_default_fields\<lparr>settings := Some idea0\<rparr>) = Inr data0"
  by (simp add: post_init_def set_defaults_def settings_item_def getitem_def idea0_def
        data_default_fields_def data0_def)

text \<open>
  C8. \<open>Data()\<close>, with no settings, does not fall back to the defaults: the first
  subscript of \<open>_set_defaults\<close> raises \<open>TypeError\<close>.  Settings without the keys raise
  \<open>KeyError\<close>, and a \<open>verbose\<close> that is present but false is replaced by \<open>True\<close>.
\<close>

theorem post_init_without_settings_raises:
  "post_init pd data_default_fields = Inl TypeError
   \<and> post_init pd (data_default_fields\<lparr>settings := Some [(''files'', [])]\<rparr>) = Inl KeyError
   \<and> post_init pd (data_default_fields\<lparr>settings := Some [(''general'', [(''seed'', PInt 4)])]\<rparr>)
       = Inl KeyError
   \<and> post_init pd (data_default_fields\<lparr>settings := Some [(''general'', [(''verbose'', PBool True)])]\<rparr>)
       = Inl KeyError
   \<and> map_sum id verbose
         (post_init pd (data_default_fields\<lparr>settings :=
             Some [(''general'', [(''verbose'', PBool False), (''seed'', PInt 4)])]\<rparr>))
       = Inr (PBool True)"
  by (simp add: post_init_def set_defaults_def settings_item_def getitem_def
        data_default_fields_def settings_truthy_def)

lemma read_frame_unsupported:
  "file_format a \<notin> {PStr ''csv'', PStr ''h5'', PStr ''feather''} \<Longrightarrow> read_frame pd path nrows a = None"
  by (simp add: read_frame_def)

text \<open>
  C10, as stated, fails: on an object without a filer, \<open>load\<close> with an unsupported
  format and no \<open>import_path\<close> raises \<open>AttributeError\<close> while building the path, and
  never comes to its final branch.
\<close>

theorem load_unsupported_format_without_filer:
  "file_format (load_defaults\<lparr>file_format := PStr ''xls''\<rparr>)
     \<notin> {PStr ''csv'', PStr ''h5'', PStr ''feather''}
   \<and> data_load pandas0 data0 (load_defaults\<lparr>file_format := PStr ''xls''\<rparr>)
       = (data0, Inl AttributeError)
   \<and> snd (data_load pandas0 data0 (load_defaults\<lparr>file_format := PStr ''xls''\<rparr>))
       \<noteq> Inl UnboundLocalError"
  by (simp add: data_load_def resolve_path_def load_defaults_def data0_def)

text \<open>
  C10, amended. For every \<open>file_format\<close> outside \<open>'csv'\<close>, \<open>'h5'\<close> and \<open>'feather'\<close>,
  \<open>load\<close> returns no value and leaves the object, \<open>self.df\<close> included, unchanged: it
  raises.  When the path is given or the filer builds it, \<open>load\<close> reaches its final
  branch with the local \<open>df\<close> never assigned and the exception is the
  \<open>UnboundLocalError\<close> of reading it; otherwise the exception is the one raised while
  building the path.
\<close>

theorem load_unsupported_format:
  "file_format a \<notin> {PStr ''csv'', PStr ''h5'', PStr ''feather''} \<Longrightarrow>
     fst (data_load pd self a) = self
     \<and> df (fst (data_load pd self a)) = df self
     \<and> (\<exists>e. snd (data_load pd self a) = Inl e)
     \<and> (\<forall>path. resolve_path self a = Inr path \<longrightarrow>
            snd (data_load pd self a) = Inl UnboundLocalError)
     \<and> (\<forall>e. resolve_path self a = Inl e \<longrightarrow> snd (data_load pd self a) = Inl e)"
  by (cases "resolve_path self a") (simp_all add: data_load_def read_frame_unsupported Let_def)

theorem load_unsupported_format_witness:
  "file_format (load_defaults\<lparr>file_format := PStr ''xls'', import_path := ''data.xls''\<rparr>)
     \<notin> {PStr ''csv'', PStr ''h5'', PStr ''feather''}
   \<and> resolve_path data0 (load_defaults\<lparr>file_format := PStr ''xls'', import_path := ''data.xls''\<rparr>)
       = Inr ''data.xls''
   \<and> data_load pandas0 data0 (load_defaults\<lparr>file_format := PStr ''xls'', import_path := ''data.xls''\<rparr>)
       = (data0, Inl UnboundLocalError)"
proof -
  let ?a = "load_defaults\<lparr>file_format := PStr ''xls'', import_path := ''data.xls''\<rparr>"
  have fmt: "file_format ?a \<notin> {PStr ''csv'', PStr ''h5'', PStr ''feather''}"
    by (simp add: load_defaults_def)
  have path: "resolve_path data0 ?a = Inr ''data.xls''"
    by (simp add: resolve_path_def load_defaults_def)
  from load_unsupported_format [OF fmt, of pandas0 data0] path
  have "fst (data_load pandas0 data0 ?a) = data0"
    and "snd (data_load pandas0 data0 ?a) = Inl UnboundLocalError"
    by simp_all
  then have "data_load pandas0 data0 ?a = (data0, Inl UnboundLocalError)"
    by (simp add: prod_eq_iff)
  with fmt path show ?thesis by simp
qed


section \<open>Properties of Data.column_types\<close>

lemma prefix_loop_Some:
  "prefix_loop (Some d) ps acc
     = Inr (acc @ concat (map (\<lambda>p. filter (\<lambda>x. startswith x p) (columns d)) ps))"
  by (induction ps arbitrary: acc) simp_all

lemma prefix_loop_None:
  "prefix_loop None ps acc = (if ps = [] then Inr acc else Inl TypeError)"
  by (cases ps) simp_all

lemma create_column_list_Some:
  "create_column_list self (Some d) prefixes cols = Inr (selected_columns d prefixes cols)"
  by (simp add: create_column_list_def resolve_df_def prefix_loop_Some selected_columns_def)

lemma set_selected_columns:
  "c \<in> set (selected_columns d prefixes cols) \<longleftrightarrow>
     c \<in> set cols \<or> (c \<in> set (columns d) \<and> (\<exists>p \<in> set prefixes. startswith c p))"
  by (auto simp: selected_columns_def)

lemma map_of_fold_update_const:
  "map_of (fold (\<lambda>k d. AList.update k v d) ks d0) k
     = (if k \<in> set ks then Some v else map_of d0 k)"
  by (induction ks arbitrary: d0) (simp_all add: update_conv')

lemma map_of_fromkeys: "map_of (fromkeys ks v) k = (if k \<in> set ks then Some v else None)"
  by (simp add: fromkeys_def map_of_fold_update_const)

lemma map_of_dict_update:
  "map_of (dict_update d other) k
     = (case map_of (rev other) k of None \<Rightarrow> map_of d k | Some x \<Rightarrow> Some x)"
  unfolding dict_update_def
proof (induction other arbitrary: d)
  case Nil
  show ?case by simp
next
  case (Cons p other)
  obtain a b where p: "p = (a, b)" by (cases p)
  show ?case
    by (simp add: p Cons.IH update_conv' map_add_def split: option.splits)
qed

lemma set_fold_update_const:
  "set (fold (\<lambda>k d. AList.update k v d) ks d0) \<subseteq> set d0 \<union> (\<lambda>k. (k, v)) ` set ks"
proof (induction ks arbitrary: d0)
  case Nil
  show ?case by simp
next
  case (Cons k ks)
  have "set (AList.update k v e) \<subseteq> insert (k, v) (set e)" for e
    by (induction e) auto
  with Cons [of "AList.update k v d0"] show ?case by auto
qed

lemma map_of_rev_fromkeys:
  "map_of (rev (fromkeys ks v)) k = (if k \<in> set ks then Some v else None)"
proof (cases "k \<in> set ks")
  case True
  then have "map_of (fromkeys ks v) k = Some v" by (simp add: map_of_fromkeys)
  then have "(k, v) \<in> set (rev (fromkeys ks v))" by (auto dest: map_of_SomeD)
  then obtain w where w: "map_of (rev (fromkeys ks v)) k = Some w"
    by (metis weak_map_of_SomeI)
  then have "(k, w) \<in> set (fromkeys ks v)" by (auto dest: map_of_SomeD)
  with set_fold_update_const [of v ks "[]"] have "w = v" by (auto simp: fromkeys_def)
  with w True show ?thesis by simp
next
  case False
  then have "map_of (fromkeys ks v) k = None" by (simp add: map_of_fromkeys)
  then have "k \<notin> fst ` set (fromkeys ks v)" by (simp add: map_of_eq_None_iff)
  then have "map_of (rev (fromkeys ks v)) k = None" by (simp add: map_of_eq_None_iff)
  with False show ?thesis by simp
qed

lemma map_of_dict_update_fromkeys:
  "map_of (dict_update d (fromkeys ks v)) k = (if k \<in> set ks then Some v else map_of d k)"
  by (simp add: map_of_dict_update map_of_rev_fromkeys)

lemma map_of_build_column_dict:
  "map_of (build_column_dict b c f i x s) k =
     (if k \<in> set s then Some Tstr
      else if k \<in> set x then Some Tcategory
      else if k \<in> set i then Some Tint
      else if k \<in> set f then Some Tfloat
      else if k \<in> set c then Some Tcategory
      else if k \<in> set b then Some Tbool
      else None)"
  by (simp add: build_column_dict_def map_of_dict_update_fromkeys map_of_fromkeys)

lemma column_types_Some:
  assumes "resolve_df self df_arg = Some d"
  shows "column_types self df_arg a =
    (self\<lparr>bool_cols := Some (selected_columns d (bool_prefixes a) (bool_cols_arg a)),
          cat_cols := Some (selected_columns d (cat_prefixes a) (cat_cols_arg a)),
          float_cols := Some (selected_columns d (float_prefixes a) (float_cols_arg a)),
          int_cols := Some (selected_columns d (int_prefixes a) (int_cols_arg a)),
          interact_cols := Some (selected_columns d (interact_prefixes a) (interact_cols_arg a)),
          list_cols := Some (selected_columns d (list_prefixes a) (list_cols_arg a)),
          str_cols := Some (selected_columns d (str_prefixes a) (str_cols_arg a)),
          num_cols := Some (selected_columns d (float_prefixes a) (float_cols_arg a)
                            @ selected_columns d (int_prefixes a) (int_cols_arg a)),
          all_cols := Some (columns d),
          column_dict := Some (build_column_dict
             (selected_columns d (bool_prefixes a) (bool_cols_arg a))
             (selected_columns d (cat_prefixes a) (cat_cols_arg a))
             (selected_columns d (float_prefixes a) (float_cols_arg a))
             (selected_columns d (int_prefixes a) (int_cols_arg a))
             (selected_columns d (interact_prefixes a) (interact_cols_arg a))
             (selected_columns d (str_prefixes a) (str_cols_arg a)))\<rparr>, None)"
  using assms
  by (simp add: column_types_def seq_def assign_column_list_def create_column_list_Some
        assign_num_cols_def assign_all_cols_def assign_column_dict_def attribute_def)

lemma seq_None:
  "snd (seq f g s) = None \<Longrightarrow> snd (f s) = None \<and> snd (g (fst (f s))) = None"
  by (auto simp: seq_def split: prod.splits option.splits)

lemma column_types_None:
  assumes "resolve_df self df_arg = None"
  shows "snd (column_types self df_arg a) \<noteq> None"
proof
  assume "snd (column_types self df_arg a) = None"
  then show False
    using assms
    by (auto simp: column_types_def assign_all_cols_def dest!: seq_None)
qed


text \<open>
  C3, as stated, fails: a column given to two buckets is in both, and a column given to
  none is in none.
\<close>

theorem column_types_overlapping_buckets:
  "snd (column_types data1 None (no_column_args\<lparr>bool_cols_arg := [''a''], int_cols_arg := [''a'']\<rparr>))
     = None
   \<and> all_cols (fst (column_types data1 None
         (no_column_args\<lparr>bool_cols_arg := [''a''], int_cols_arg := [''a'']\<rparr>)))
       = Some [''a'', ''b'', ''cat_x'']
   \<and> bool_cols (fst (column_types data1 None
         (no_column_args\<lparr>bool_cols_arg := [''a''], int_cols_arg := [''a'']\<rparr>)))
       = Some [''a'']
   \<and> int_cols (fst (column_types data1 None
         (no_column_args\<lparr>bool_cols_arg := [''a''], int_cols_arg := [''a'']\<rparr>)))
       = Some [''a'']
   \<and> cat_cols (fst (column_types data1 None
         (no_column_args\<lparr>bool_cols_arg := [''a''], int_cols_arg := [''a'']\<rparr>)))
       = Some []"
proof -
  have "resolve_df data1 None = Some [(''a'', 1), (''b'', 2), (''cat_x'', 3)]"
    by (simp add: resolve_df_def data1_def)
  then show ?thesis
    by (simp add: column_types_Some selected_columns_def no_column_args_def columns_def)
qed

text \<open>
  C3, amended. When \<open>column_types\<close> completes, it ran on a frame, and each bucket holds
  exactly the columns its arguments select: the explicit list, then for each prefix
  the frame's columns that start with it.  Nothing checks or removes overlaps between
  the buckets.  \<open>column_dict\<close> gives every column of the bool, cat, float, int, interact
  and str buckets one datatype: that of the last of these buckets, in this order,
  that holds it.
\<close>

theorem column_types_buckets:
  assumes "column_types self df_arg a = (self', None)"
  shows "\<exists>d cd. resolve_df self df_arg = Some d
     \<and> bool_cols self' = Some (selected_columns d (bool_prefixes a) (bool_cols_arg a))
     \<and> cat_cols self' = Some (selected_columns d (cat_prefixes a) (cat_cols_arg a))
     \<and> float_cols self' = Some (selected_columns d (float_prefixes a) (float_cols_arg a))
     \<and> int_cols self' = Some (selected_columns d (int_prefixes a) (int_cols_arg a))
     \<and> interact_cols self' = Some (selected_columns d (interact_prefixes a) (interact_cols_arg a))
     \<and> list_cols self' = Some (selected_columns d (list_prefixes a) (list_cols_arg a))
     \<and> str_cols self' = Some (selected_columns d (str_prefixes a) (str_cols_arg a))
     \<and> column_dict self' = Some cd
     \<and> (\<forall>k. k \<in> set (selected_columns d (bool_prefixes a) (bool_cols_arg a))
              \<union> set (selected_columns d (cat_prefixes a) (cat_cols_arg a))
              \<union> set (selected_columns d (float_prefixes a) (float_cols_arg a))
              \<union> set (selected_columns d (int_prefixes a) (int_cols_arg a))
              \<union> set (selected_columns d (interact_prefixes a) (interact_cols_arg a))
              \<union> set (selected_columns d (str_prefixes a) (str_cols_arg a))
            \<longrightarrow> map_of cd k = Some
              (if k \<in> set (selected_columns d (str_prefixes a) (str_cols_arg a)) then Tstr
               else if k \<in> set (selected_columns d (interact_prefixes a) (interact_cols_arg a))
                 then Tcategory
               else if k \<in> set (selected_columns d (int_prefixes a) (int_cols_arg a)) then Tint
               else if k \<in> set (selected_columns d (float_prefixes a) (float_cols_arg a))
                 then Tfloat
               else if k \<in> set (selected_columns d (cat_prefixes a) (cat_cols_arg a))
                 then Tcategory
               else Tbool))"
proof (cases "resolve_df self df_arg")
  case None
  from column_types_None [OF None, of a] assms show ?thesis by simp
next
  case (Some d)
  from column_types_Some [OF Some, of a] assms
  have self': "self' =
    self\<lparr>bool_cols := Some (selected_columns d (bool_prefixes a) (bool_cols_arg a)),
          cat_cols := Some (selected_columns d (cat_prefixes a) (cat_cols_arg a)),
          float_cols := Some (selected_columns d (float_prefixes a) (float_cols_arg a)),
          int_cols := Some (selected_columns d (int_prefixes a) (int_cols_arg a)),
          interact_cols := Some (selected_columns d (interact_prefixes a) (interact_cols_arg a)),
          list_cols := Some (selected_columns d (list_prefixes a) (list_cols_arg a)),
          str_cols := Some (selected_columns d (str_prefixes a) (str_cols_arg a)),
          num_cols := Some (selected_columns d (float_prefixes a) (float_cols_arg a)
                            @ selected_columns d (int_prefixes a) (int_cols_arg a)),
          all_cols := Some (columns d),
          column_dict := Some (build_column_dict
             (selected_columns d (bool_prefixes a) (bool_cols_arg a))
             (selected_columns d (cat_prefixes a) (cat_cols_arg a))
             (selected_columns d (float_prefixes a) (float_cols_arg a))
             (selected_columns d (int_prefixes a) (int_cols_arg a))
             (selected_columns d (interact_prefixes a) (interact_cols_arg a))
             (selected_columns d (str_prefixes a) (str_cols_arg a)))\<rparr>"
    by simp
  show ?thesis
    unfolding self' using Some
    by (simp add: map_of_build_column_dict)
qed

theorem column_types_buckets_witness:
  "column_types data1 None (no_column_args\<lparr>bool_cols_arg := [''a''], cat_prefixes := [''cat_'']\<rparr>)
     = (data1\<lparr>bool_cols := Some [''a''], cat_cols := Some [''cat_x''], float_cols := Some [],
              int_cols := Some [], interact_cols := Some [], list_cols := Some [],
              str_cols := Some [], num_cols := Some [],
              all_cols := Some [''a'', ''b'', ''cat_x''],
              column_dict := Some [(''a'', Tbool), (''cat_x'', Tcategory)]\<rparr>, None)
   \<and> (\<exists>d cd. resolve_df data1 None = Some d
        \<and> cat_cols (data1\<lparr>bool_cols := Some [''a''], cat_cols := Some [''cat_x''],
              float_cols := Some [],
              int_cols := Some [], interact_cols := Some [], list_cols := Some [],
              str_cols := Some [], num_cols := Some [],
              all_cols := Some [''a'', ''b'', ''cat_x''],
              column_dict := Some [(''a'', Tbool), (''cat_x'', Tcategory)]\<rparr>)
            = Some (selected_columns d [''cat_''] [])
        \<and> column_dict (data1\<lparr>bool_cols := Some [''a''], cat_cols := Some [''cat_x''],
              float_cols := Some [],
              int_cols := Some [], interact_cols := Some [], list_cols := Some [],
              str_cols := Some [], num_cols := Some [],
              all_cols := Some [''a'', ''b'', ''cat_x''],
              column_dict := Some [(''a'', Tbool), (''cat_x'', Tcategory)]\<rparr>) = Some cd
        \<and> map_of cd ''cat_x'' = Some Tcategory)"
proof -
  let ?a = "no_column_args\<lparr>bool_cols_arg := [''a''], cat_prefixes := [''cat_'']\<rparr>"
  let ?s = "data1\<lparr>bool_cols := Some [''a''], cat_cols := Some [''cat_x''], float_cols := Some [],
              int_cols := Some [], interact_cols := Some [], list_cols := Some [],
              str_cols := Some [], num_cols := Some [],
              all_cols := Some [''a'', ''b'', ''cat_x''],
              column_dict := Some [(''a'', Tbool), (''cat_x'', Tcategory)]\<rparr>"
  have r: "resolve_df data1 None = Some [(''a'', 1), (''b'', 2), (''cat_x'', 3)]"
    by (simp add: resolve_df_def data1_def)
  have run: "column_types data1 None ?a = (?s, None)"
    by (simp add: column_types_Some [OF r] selected_columns_def no_column_args_def columns_def
          startswith_def build_column_dict_def fromkeys_def dict_update_def)
  have sel: "selected_columns [(''a'', 1::nat), (''b'', 2), (''cat_x'', 3)] [''cat_''] [] = [''cat_x'']"
    by (simp add: selected_columns_def columns_def startswith_def)
  from column_types_buckets [OF run] r
  have "\<exists>d cd. resolve_df data1 None = Some d
        \<and> cat_cols ?s = Some (selected_columns d [''cat_''] [])
        \<and> column_dict ?s = Some cd
        \<and> map_of cd ''cat_x'' = Some Tcategory"
    by (simp add: no_column_args_def sel)
  with run show ?thesis by simp
qed


section \<open>Properties of the column-dropping operations\<close>

lemma frame_drop_Inr:
  assumes "frame_drop ls d = Inr d'"
  shows "d' = filter (\<lambda>c. fst c \<notin> set ls) d" and "set ls \<subseteq> set (columns d)"
  using assms by (auto simp: frame_drop_def list_all_iff split: if_splits)

lemma columns_filter:
  "columns (filter (\<lambda>c. fst c \<notin> A) d) = filter (\<lambda>c. c \<notin> A) (columns d)"
  by (induction d) (simp_all add: columns_def)

lemma columns_filter_subset: "set (columns (filter P d)) \<subseteq> set (columns d)"
  by (auto simp: columns_def)

lemma appended_removed:
  assumes "appended before after dc dc' app"
  shows "set app = set (removed before after)"
  using assms
  by (cases before) (auto simp: appended_def removed_def labels_def columns_filter)

lemma appended_nothing: "appended w w dc dc []"
  by (cases w) (simp_all add: appended_def)

lemma drop_cols_appended:
  assumes "drop_cols self df_arg prefixes cols = (after, self', e)"
  shows "\<exists>app. appended (resolve_arg self df_arg) after (dropped_columns self)
           (dropped_columns self') app"
proof (cases e)
  case (Some err)
  with assms have "after = resolve_arg self df_arg" and "self' = self"
    by (auto simp: drop_cols_def Let_def split: sum.splits option.splits)
  then show ?thesis using appended_nothing by blast
next
  case None
  with assms obtain cols' d d' where
    w: "resolve_arg self df_arg = Some d" and
    fd: "frame_drop cols' d = Inr d'" and
    after: "after = Some d'" and
    self': "self' = store self df_arg d' (dropped_columns self @ cols')"
    by (auto simp: drop_cols_def Let_def split: sum.splits option.splits)
  have "dropped_columns self' = dropped_columns self @ cols'"
    by (simp add: self' store_def split: df_arg.splits)
  with frame_drop_Inr [OF fd] w after
  have "appended (resolve_arg self df_arg) after (dropped_columns self) (dropped_columns self') cols'"
    by (simp add: appended_def labels_def)
  then show ?thesis by blast
qed

lemma drop_infrequent_loop_appended:
  assumes "drop_infrequent_loop mean threshold bools d dc = (d', dc', e)"
  shows "\<exists>app. appended (Some d) (Some d') dc dc' app \<and> distinct app"
  using assms
proof (induction bools arbitrary: d dc)
  case Nil
  then show ?case using appended_nothing [of "Some d" dc] by auto
next
  case (Cons col bools)
  show ?case
  proof (cases "filter (\<lambda>c. fst c = col) d")
    case Nil
    with Cons.prems show ?thesis using appended_nothing [of "Some d" dc] by auto
  next
    case (Cons c rest)
    note found = Cons
    show ?thesis
    proof (cases rest)
      case (Cons c2 rest2)
      with found Cons.prems show ?thesis using appended_nothing [of "Some d" dc] by auto
    next
      case Nil
      with found have single: "filter (\<lambda>c. fst c = col) d = [c]" by simp
      then have "c \<in> set (filter (\<lambda>c. fst c = col) d)" by simp
      then have col_in: "col \<in> set (columns d)"
        by (auto simp: columns_def intro: rev_image_eqI)
      show ?thesis
      proof (cases "mean (snd c) < threshold")
        case False
        with single Cons.prems Cons.IH [of d dc] show ?thesis by simp
      next
        case True
        let ?d1 = "filter (\<lambda>c. fst c \<notin> set [col]) d"
        have fd: "frame_drop [col] d = Inr ?d1"
          using col_in by (simp add: frame_drop_def)
        with True single Cons.prems
        have "drop_infrequent_loop mean threshold bools ?d1 (dc @ [col]) = (d', dc', e)"
          by simp
        from Cons.IH [OF this] obtain app where
          app: "appended (Some ?d1) (Some d') (dc @ [col]) dc' app" and dist: "distinct app"
          by blast
        have "col \<notin> set (columns ?d1)"
          by (auto simp: columns_def)
        with app have notin: "col \<notin> set app"
          by (auto simp: appended_def labels_def)
        have "appended (Some d) (Some d') dc dc' (col # app)"
          using app col_in columns_filter_subset [of "\<lambda>c. fst c \<noteq> col" d]
          by (auto simp: appended_def labels_def filter_filter conj_commute
                   intro: filter_cong)
        with dist notin show ?thesis by (intro exI [of _ "col # app"]) simp
      qed
    qed
  qed
qed

lemma drop_infrequent_cols_appended:
  assumes "drop_infrequent_cols mean self df_arg bools threshold = (after, self', e)"
  shows "\<exists>app. appended (resolve_arg self df_arg) after (dropped_columns self)
           (dropped_columns self') app"
proof (cases "resolve_arg self df_arg")
  case None
  with assms have "after = None" and "self' = self"
    by (simp_all add: drop_infrequent_cols_def)
  with None show ?thesis using appended_nothing [of None] by auto
next
  case (Some d)
  obtain d' dc' e' where
    loop: "drop_infrequent_loop mean threshold bools d (dropped_columns self) = (d', dc', e')"
    by (cases "drop_infrequent_loop mean threshold bools d (dropped_columns self)") auto
  with Some assms have after: "after = Some d'" and self': "self' = store self df_arg d' dc'"
    by (simp_all add: drop_infrequent_cols_def)
  have "dropped_columns self' = dc'"
    by (simp add: self' store_def split: df_arg.splits)
  with drop_infrequent_loop_appended [OF loop] Some after show ?thesis by auto
qed

lemma drop_highly_correlated_cols_appended:
  assumes "drop_highly_correlated_cols upper_columns exceeds self df_arg cols threshold
             = (after, self', e)"
  shows "\<exists>app. appended (resolve_arg self df_arg) after (dropped_columns self)
           (dropped_columns self') app"
proof (cases e)
  case (Some err)
  with assms have "after = resolve_arg self df_arg" and "self' = self"
    by (auto simp: drop_highly_correlated_cols_def Let_def
             split: sum.splits option.splits if_splits cols_arg.splits)
  then show ?thesis using appended_nothing by blast
next
  case None
  with assms obtain cols' d d' where
    w: "resolve_arg self df_arg = Some d" and
    fd: "frame_drop cols' d = Inr d'" and
    after: "after = Some d'" and
    self': "self' = store self df_arg d' (dropped_columns self @ cols')"
    by (auto simp: drop_highly_correlated_cols_def Let_def
             split: sum.splits option.splits if_splits cols_arg.splits)
  have "dropped_columns self' = dropped_columns self @ cols'"
    by (simp add: self' store_def split: df_arg.splits)
  with frame_drop_Inr [OF fd] w after
  have "appended (resolve_arg self df_arg) after (dropped_columns self) (dropped_columns self') cols'"
    by (simp add: appended_def labels_def)
  then show ?thesis by blast
qed

lemma apply_drop_appended:
  assumes "apply_drop st self op = (after, self', e)"
  shows "\<exists>app. appended (resolve_arg self (frame_arg op)) after (dropped_columns self)
           (dropped_columns self') app"
  using assms
  by (cases op)
     (auto dest: drop_cols_appended drop_infrequent_cols_appended
        drop_highly_correlated_cols_appended)

lemma run_drops_appended:
  assumes "run_drops st self ops = (final, rs)"
  shows "\<exists>app. dropped_columns final = dropped_columns self @ app \<and> set app = set (concat rs)"
  using assms
proof (induction ops arbitrary: self rs final)
  case Nil
  then show ?case by simp
next
  case (Cons op ops)
  obtain after self' e where step: "apply_drop st self op = (after, self', e)"
    by (cases "apply_drop st self op") auto
  obtain final' rs' where rest: "run_drops st self' ops = (final', rs')"
    by (cases "run_drops st self' ops") auto
  from Cons.prems step rest have final: "final = final'"
    and rs: "rs = removed (resolve_arg self (frame_arg op)) after # rs'"
    by simp_all
  from apply_drop_appended [OF step] obtain app1 where
    a1: "appended (resolve_arg self (frame_arg op)) after (dropped_columns self)
           (dropped_columns self') app1" by blast
  from Cons.IH [OF rest] obtain app2 where
    a2: "dropped_columns final' = dropped_columns self' @ app2" "set app2 = set (concat rs')"
    by blast
  have "dropped_columns final = dropped_columns self @ (app1 @ app2)"
    using a1 a2 final by (simp add: appended_def)
  moreover have "set (app1 @ app2) = set (concat rs)"
    using appended_removed [OF a1] a2 rs by simp
  ultimately show ?case by blast
qed


lemma data_load_dropped_columns:
  "dropped_columns (fst (data_load pd self a)) = dropped_columns self"
  by (simp add: data_load_def Let_def split: sum.splits option.splits)

lemma seq_keeps:
  assumes "\<And>s. F (fst (f s)) = F s" and "\<And>s. F (fst (g s)) = F s"
  shows "F (fst (seq f g s)) = F s"
proof (cases "f s")
  case (Pair s1 e)
  with assms(1) [of s] have s1: "F s1 = F s" by simp
  show ?thesis
  proof (cases e)
    case None
    with Pair assms(2) [of s1] s1 show ?thesis by (simp add: seq_def)
  next
    case (Some err)
    with Pair s1 show ?thesis by (simp add: seq_def)
  qed
qed

lemma assign_column_list_keeps:
  assumes "\<And>l s. dropped_columns (setter l s) = dropped_columns s"
  shows "dropped_columns (fst (assign_column_list setter w prefixes cols s)) = dropped_columns s"
  using assms by (simp add: assign_column_list_def split: sum.splits)

lemma assign_num_cols_keeps: "dropped_columns (fst (assign_num_cols s)) = dropped_columns s"
  by (simp add: assign_num_cols_def split: sum.splits)

lemma assign_all_cols_keeps: "dropped_columns (fst (assign_all_cols w s)) = dropped_columns s"
  by (simp add: assign_all_cols_def split: option.splits)

lemma assign_column_dict_keeps: "dropped_columns (fst (assign_column_dict s)) = dropped_columns s"
  by (simp add: assign_column_dict_def split: sum.splits)

lemma column_types_dropped_columns:
  "dropped_columns (fst (column_types self df_arg a)) = dropped_columns self"
  unfolding column_types_def Let_def
  by (intro seq_keeps assign_column_list_keeps assign_num_cols_keeps assign_all_cols_keeps
        assign_column_dict_keeps) simp_all

lemma drop_cols_success:
  assumes "drop_cols self df_arg prefixes cols = (after, self', None)"
  shows "\<exists>d. resolve_arg self df_arg = Some d
     \<and> dropped_columns self' = dropped_columns self @ selected_columns d prefixes cols"
proof (cases "resolve_arg self df_arg")
  case None
  with assms show ?thesis
    by (auto simp: drop_cols_def Let_def split: sum.splits)
next
  case (Some d)
  with assms obtain d' where
    "self' = store self df_arg d' (dropped_columns self @ selected_columns d prefixes cols)"
    by (auto simp: drop_cols_def Let_def create_column_list_Some split: sum.splits)
  then have "dropped_columns self' = dropped_columns self @ selected_columns d prefixes cols"
    by (simp add: store_def split: df_arg.splits)
  with Some show ?thesis by simp
qed

lemma drop_infrequent_cols_distinct:
  assumes "drop_infrequent_cols mean self df_arg bools threshold = (after, self', e)"
  shows "\<exists>app. dropped_columns self' = dropped_columns self @ app \<and> distinct app"
proof (cases "resolve_arg self df_arg")
  case None
  with assms have "self' = self"
    by (simp add: drop_infrequent_cols_def)
  then show ?thesis by simp
next
  case (Some d)
  obtain d' dc' e' where
    loop: "drop_infrequent_loop mean threshold bools d (dropped_columns self) = (d', dc', e')"
    by (cases "drop_infrequent_loop mean threshold bools d (dropped_columns self)") auto
  with Some assms have self': "self' = store self df_arg d' dc'"
    by (simp add: drop_infrequent_cols_def)
  have "dropped_columns self' = dc'"
    by (simp add: self' store_def split: df_arg.splits)
  with drop_infrequent_loop_appended [OF loop] show ?thesis
    by (auto simp: appended_def)
qed

text \<open>
  The frame the object holds after a call: unchanged when another frame was passed,
  otherwise the frame worked on, as the call left it.
\<close>

lemma store_df:
  "df (store self df_arg d dc) = (case df_arg of OtherFrame x \<Rightarrow> df self | _ \<Rightarrow> Some d)"
  by (simp add: store_def split: df_arg.splits)

lemma drop_cols_object_frame:
  assumes "drop_cols self df_arg prefixes cols = (after, self', e)"
  shows "df self' = (case df_arg of OtherFrame x \<Rightarrow> df self | _ \<Rightarrow> after)"
proof (cases e)
  case (Some err)
  with assms have "after = resolve_arg self df_arg" and "self' = self"
    by (auto simp: drop_cols_def Let_def split: sum.splits option.splits)
  then show ?thesis by (cases df_arg) (simp_all add: resolve_arg_def)
next
  case None
  with assms obtain dc d' where "after = Some d'" and "self' = store self df_arg d' dc"
    by (auto simp: drop_cols_def Let_def split: sum.splits option.splits)
  then show ?thesis by (cases df_arg) (simp_all add: store_df)
qed

lemma drop_infrequent_cols_object_frame:
  assumes "drop_infrequent_cols mean self df_arg bools threshold = (after, self', e)"
  shows "df self' = (case df_arg of OtherFrame x \<Rightarrow> df self | _ \<Rightarrow> after)"
proof (cases "resolve_arg self df_arg")
  case None
  with assms have "after = resolve_arg self df_arg" and "self' = self"
    by (simp_all add: drop_infrequent_cols_def)
  then show ?thesis by (cases df_arg) (simp_all add: resolve_arg_def)
next
  case (Some d)
  obtain d' dc' e' where
    "drop_infrequent_loop mean threshold bools d (dropped_columns self) = (d', dc', e')"
    by (cases "drop_infrequent_loop mean threshold bools d (dropped_columns self)") auto
  with Some assms have "after = Some d'" and "self' = store self df_arg d' dc'"
    by (simp_all add: drop_infrequent_cols_def)
  then show ?thesis by (cases df_arg) (simp_all add: store_df)
qed

lemma drop_highly_correlated_cols_object_frame:
  assumes "drop_highly_correlated_cols upper_columns exceeds self df_arg cols threshold
             = (after, self', e)"
  shows "df self' = (case df_arg of OtherFrame x \<Rightarrow> df self | _ \<Rightarrow> after)"
proof (cases e)
  case (Some err)
  with assms have "after = resolve_arg self df_arg" and "self' = self"
    by (auto simp: drop_highly_correlated_cols_def Let_def
             split: sum.splits option.splits if_splits cols_arg.splits)
  then show ?thesis by (cases df_arg) (simp_all add: resolve_arg_def)
next
  case None
  with assms obtain dc d' where "after = Some d'" and "self' = store self df_arg d' dc"
    by (auto simp: drop_highly_correlated_cols_def Let_def
             split: sum.splits option.splits if_splits cols_arg.splits)
  then show ?thesis by (cases df_arg) (simp_all add: store_df)
qed

lemma apply_drop_object_frame:
  assumes "apply_drop st self op = (after, self', e)"
  shows "df self' = (case frame_arg op of OtherFrame x \<Rightarrow> df self | _ \<Rightarrow> after)"
  using assms
  by (cases op)
     (auto dest: drop_cols_object_frame drop_infrequent_cols_object_frame
        drop_highly_correlated_cols_object_frame)

lemma drop_cols_example:
  "apply_drop stats0 data1 (DropCols NoFrame [''cat_''] [''a''])
   = (Some [(''b'', 2)],
      data1\<lparr>df := Some [(''b'', 2)], dropped_columns := [''a'', ''cat_x'']\<rparr>, None)"
  by (simp add: drop_cols_def create_column_list_def resolve_arg_def resolve_df_def
        data1_def data0_def frame_drop_def columns_def startswith_def store_def Let_def)

lemma drop_infrequent_cols_example:
  "drop_infrequent_cols (series_mean stats0) data1 SelfFrame [''b''] 5
   = (Some [(''a'', 1), (''cat_x'', 3)],
      data1\<lparr>df := Some [(''a'', 1), (''cat_x'', 3)], dropped_columns := [''b'']\<rparr>, None)"
  by (simp add: drop_infrequent_cols_def resolve_arg_def
        data1_def data0_def frame_drop_def columns_def store_def stats0_def)

lemma run_drops_example:
  "run_drops stats0 data1 [DropCols NoFrame [''cat_''] [''a''], DropInfrequent SelfFrame [''b''] 5,
      DropCols NoFrame [] [''zzz'']]
   = (data1\<lparr>df := Some [], dropped_columns := [''a'', ''cat_x'', ''b'']\<rparr>,
      [[''a'', ''cat_x''], [''b''], []])"
  by (simp add: drop_cols_def drop_infrequent_cols_def create_column_list_def resolve_arg_def
        resolve_df_def data1_def data0_def frame_drop_def columns_def startswith_def store_def
        stats0_def removed_def labels_def Let_def)

text \<open>
  C2, as stated, fails: \<open>drop_cols\<close> with a column that is both listed and matched
  by a prefix removes one column and appends its name twice.
\<close>

theorem drop_cols_appends_name_twice:
  "drop_cols data1 NoFrame [''cat_''] [''cat_x'']
     = (Some [(''a'', 1), (''b'', 2)],
        data1\<lparr>df := Some [(''a'', 1), (''b'', 2)], dropped_columns := [''cat_x'', ''cat_x'']\<rparr>,
        None)
   \<and> dropped_columns data1 = []
   \<and> removed (resolve_arg data1 NoFrame) (Some [(''a'', 1), (''b'', 2)]) = [''cat_x'']
   \<and> dropped_columns (fst (snd (drop_cols data1 NoFrame [''cat_''] [''cat_x''])))
       \<noteq> dropped_columns data1
           @ removed (resolve_arg data1 NoFrame) (fst (drop_cols data1 NoFrame [''cat_''] [''cat_x'']))"
  by (simp add: drop_cols_def create_column_list_def resolve_arg_def resolve_df_def
        data1_def data0_def frame_drop_def columns_def startswith_def store_def Let_def
        removed_def labels_def)

text \<open>
  C2, amended. \<open>dropped_columns\<close> is an append-only audit trail.  A call of
  \<open>drop_cols\<close>, \<open>drop_infrequent_cols\<close> or \<open>drop_highly_correlated_cols\<close>, whether it
  returns or raises, appends to \<open>dropped_columns\<close> labels whose set is exactly the set
  of labels it removed from the frame it worked on; that frame loses exactly the
  columns under them, and it is the object's own frame unless another frame was
  passed.  A label may be appended more than once: a \<open>drop_cols\<close> that returns
  appends its whole list, the explicit columns followed by the prefix matches;
  \<open>drop_infrequent_cols\<close> appends each label once.  After any run of these operations
  \<open>dropped_columns\<close> is what it was before, followed by labels that are exactly those
  removed by the operations of the run.  \<open>load\<close> and \<open>column_types\<close> leave
  \<open>dropped_columns\<close> as it is.
\<close>

theorem dropped_columns_audit_trail:
  "(apply_drop st self op = (after, self', e) \<longrightarrow>
      (\<exists>app. dropped_columns self' = dropped_columns self @ app
         \<and> set app = set (removed (resolve_arg self (frame_arg op)) after)
         \<and> after = map_option (filter (\<lambda>c. fst c \<notin> set app)) (resolve_arg self (frame_arg op))
         \<and> df self' = (case frame_arg op of OtherFrame x \<Rightarrow> df self | _ \<Rightarrow> after)))
   \<and> (drop_cols self1 df_arg1 prefixes cols = (after1, self1', None) \<longrightarrow>
      (\<exists>d. resolve_arg self1 df_arg1 = Some d
         \<and> dropped_columns self1' = dropped_columns self1 @ selected_columns d prefixes cols))
   \<and> (drop_infrequent_cols mean self2 df_arg2 bools threshold = (after2, self2', e2) \<longrightarrow>
      (\<exists>app. dropped_columns self2' = dropped_columns self2 @ app \<and> distinct app))
   \<and> (run_drops st self ops = (final, rs) \<longrightarrow>
      (\<exists>app. dropped_columns final = dropped_columns self @ app \<and> set app = set (concat rs)))
   \<and> dropped_columns (fst (data_load pd self a)) = dropped_columns self
   \<and> dropped_columns (fst (column_types self df_arg ca)) = dropped_columns self"
proof (intro conjI impI)
  assume step: "apply_drop st self op = (after, self', e)"
  from apply_drop_appended [OF step] obtain app where
    app: "appended (resolve_arg self (frame_arg op)) after (dropped_columns self)
            (dropped_columns self') app" by blast
  from app appended_removed [OF app] apply_drop_object_frame [OF step]
  show "\<exists>app. dropped_columns self' = dropped_columns self @ app
         \<and> set app = set (removed (resolve_arg self (frame_arg op)) after)
         \<and> after = map_option (filter (\<lambda>c. fst c \<notin> set app)) (resolve_arg self (frame_arg op))
         \<and> df self' = (case frame_arg op of OtherFrame x \<Rightarrow> df self | _ \<Rightarrow> after)"
    unfolding appended_def by blast
next
  assume "drop_cols self1 df_arg1 prefixes cols = (after1, self1', None)"
  then show "\<exists>d. resolve_arg self1 df_arg1 = Some d
         \<and> dropped_columns self1' = dropped_columns self1 @ selected_columns d prefixes cols"
    by (rule drop_cols_success)
next
  assume "drop_infrequent_cols mean self2 df_arg2 bools threshold = (after2, self2', e2)"
  then show "\<exists>app. dropped_columns self2' = dropped_columns self2 @ app \<and> distinct app"
    by (rule drop_infrequent_cols_distinct)
next
  assume "run_drops st self ops = (final, rs)"
  then show "\<exists>app. dropped_columns final = dropped_columns self @ app \<and> set app = set (concat rs)"
    by (rule run_drops_appended)
next
  show "dropped_columns (fst (data_load pd self a)) = dropped_columns self"
    by (rule data_load_dropped_columns)
next
  show "dropped_columns (fst (column_types self df_arg ca)) = dropped_columns self"
    by (rule column_types_dropped_columns)
qed

theorem dropped_columns_audit_trail_witness:
  "apply_drop stats0 data1 (DropCols NoFrame [''cat_''] [''a''])
     = (Some [(''b'', 2)],
        data1\<lparr>df := Some [(''b'', 2)], dropped_columns := [''a'', ''cat_x'']\<rparr>, None)
   \<and> (\<exists>app. [''a'', ''cat_x''] = dropped_columns data1 @ app
         \<and> set app = set (removed (df data1) (Some [(''b'', 2)])))
   \<and> (\<exists>d. df data1 = Some d \<and> [''a'', ''cat_x''] = dropped_columns data1 @ selected_columns d [''cat_''] [''a''])
   \<and> drop_infrequent_cols (series_mean stats0) data1 SelfFrame [''b''] 5
     = (Some [(''a'', 1), (''cat_x'', 3)],
        data1\<lparr>df := Some [(''a'', 1), (''cat_x'', 3)], dropped_columns := [''b'']\<rparr>, None)
   \<and> (\<exists>app. [''b''] = dropped_columns data1 @ app \<and> distinct app)
   \<and> run_drops stats0 data1 [DropCols NoFrame [''cat_''] [''a''], DropInfrequent SelfFrame [''b''] 5,
        DropCols NoFrame [] [''zzz'']]
     = (data1\<lparr>df := Some [], dropped_columns := [''a'', ''cat_x'', ''b'']\<rparr>,
        [[''a'', ''cat_x''], [''b''], []])
   \<and> (\<exists>app. [''a'', ''cat_x'', ''b''] = dropped_columns data1 @ app
         \<and> set app = {''a'', ''cat_x'', ''b''})"
proof -
  have step: "drop_cols data1 NoFrame [''cat_''] [''a'']
     = (Some [(''b'', 2)],
        data1\<lparr>df := Some [(''b'', 2)], dropped_columns := [''a'', ''cat_x'']\<rparr>, None)"
    using drop_cols_example by simp
  from dropped_columns_audit_trail [THEN conjunct1, THEN mp, OF drop_cols_example] have
    "\<exists>app. [''a'', ''cat_x''] = dropped_columns data1 @ app
         \<and> set app = set (removed (df data1) (Some [(''b'', 2)]))"
    by (auto simp: resolve_arg_def)
  moreover
  from dropped_columns_audit_trail [THEN conjunct2, THEN conjunct1, THEN mp, OF step] have
    "\<exists>d. df data1 = Some d
       \<and> [''a'', ''cat_x''] = dropped_columns data1 @ selected_columns d [''cat_''] [''a'']"
    by (auto simp: resolve_arg_def)
  moreover
  from dropped_columns_audit_trail
    [THEN conjunct2, THEN conjunct2, THEN conjunct1, THEN mp, OF drop_infrequent_cols_example]
  have "\<exists>app. [''b''] = dropped_columns data1 @ app \<and> distinct app"
    by auto
  moreover
  from dropped_columns_audit_trail
    [THEN conjunct2, THEN conjunct2, THEN conjunct2, THEN conjunct1, THEN mp, OF run_drops_example]
  have "\<exists>app. [''a'', ''cat_x'', ''b''] = dropped_columns data1 @ app
         \<and> set app = {''a'', ''cat_x'', ''b''}"
    by (auto simp: insert_commute)
  ultimately show ?thesis
    using drop_cols_example drop_infrequent_cols_example run_drops_example by simp
qed


section \<open>Properties of the parameter builder\<close>

lemma build_stage_ignores_data:
  "build_stage t self outline data_obj = build_stage t self outline None"
  by (simp add: build_stage_def)

lemma apply_stages_ignores_data:
  "apply_stages ts self outline data_obj = apply_stages ts self outline None"
proof (induction ts arbitrary: self)
  case Nil
  show ?case by simp
next
  case (Cons t ts)
  show ?case
    using Cons.IH build_stage_ignores_data [of t self outline data_obj]
    by (simp split: sum.splits)
qed

text \<open>The stages run in the order of \<open>draft\<close>, and none of them raises.\<close>

lemma parameter_builder_apply_order:
  "parameter_builder_apply self outline data_obj =
     Inr (build_conditional (build_runtime (build_required (build_selected
            (build_idea self outline) outline) outline) outline) outline)"
  by (simp add: parameter_builder_apply_def parameter_types_def build_stage_def)

text \<open>After \<open>_build_required\<close> every required key holds its required value.\<close>

lemma build_required_overwrites:
  assumes "required outline = Some r"
  shows "map_of (bunch (build_required self outline)) k =
           (case map_of (rev r) k of None \<Rightarrow> map_of (bunch self) k | Some x \<Rightarrow> Some x)"
  using assms by (simp add: build_required_def map_of_dict_update)

lemma parameters_apply_raises:
  "parameters_apply update_with_set self data_obj = Inl AttributeError"
  by (simp add: parameters_apply_def parameters_dict_attribute_def)

text \<open>
  C6. \<open>ParameterBuilder.apply\<close> never looks at the data object: the result with a data
  object is the result without one.  For an outline that names the data-dependent
  parameter \<open>n_features\<close> and a data object that has the attribute, the final bunch
  has no \<open>n_features\<close>; and \<open>Parameters.apply\<close>, which should add it, raises
  \<open>AttributeError\<close> on its first statement.
\<close>

theorem parameter_builder_apply_ignores_data:
  "parameter_builder_apply self outline data_obj = parameter_builder_apply self outline None
   \<and> data_dependent outline0 = Some [(''n_features'', ''n_cols'')]
   \<and> map_of data_obj0 ''n_cols'' = Some 10
   \<and> parameter_builder_apply builder0 outline0 (Some data_obj0)
       = Inr (builder0\<lparr>bunch := [(''copy'', 0), (''threshold'', 3), (''random_state'', 42)]\<rparr>)
   \<and> map_of [(''copy'', 0), (''threshold'', 3), (''random_state'', 42::int)] ''n_features'' = None
   \<and> parameters_apply update_with_set
         \<lparr>parameters = [(''copy'', 0)], page = None,
          parameters_data_dependent = Some [(''n_features'', ''n_cols'')]\<rparr> (Some data_obj0)
       = Inl AttributeError"
proof -
  have "parameter_builder_apply self outline data_obj = parameter_builder_apply self outline None"
    unfolding parameter_builder_apply_def by (rule apply_stages_ignores_data)
  moreover have "parameter_builder_apply builder0 outline0 (Some data_obj0)
       = Inr (builder0\<lparr>bunch := [(''copy'', 0), (''threshold'', 3), (''random_state'', 42)]\<rparr>)"
    by (simp add: parameter_builder_apply_order build_conditional_def build_runtime_def
          build_required_def build_selected_def build_idea_def builder0_def outline0_def
          dict_update_def)
  ultimately show ?thesis
    by (simp add: parameters_apply_raises outline0_def data_obj0_def)
qed


section \<open>Properties of the summary table\<close>

lemma summarize_column_variable:
  "summarize_column ops col d = (d', Inr r) \<Longrightarrow> variable r = col"
  by (auto simp: summarize_column_def Let_def split: option.splits if_splits sum.splits)

lemma summarize_loop_variables:
  "summarize_loop ops cols d rows = (d', rows', None)
   \<Longrightarrow> map variable rows' = map variable rows @ cols"
proof (induction cols arbitrary: d rows)
  case Nil
  then show ?case by simp
next
  case (Cons col cols)
  obtain d1 res where step: "summarize_column ops col d = (d1, res)"
    by (cases "summarize_column ops col d") auto
  show ?case
  proof (cases res)
    case (Inl e)
    with step Cons.prems show ?thesis by simp
  next
    case (Inr r)
    with step Cons.prems have "summarize_loop ops cols d1 (rows @ [r]) = (d', rows', None)"
      by simp
    from Cons.IH [OF this] summarize_column_variable [of ops col d d1 r] step Inr
    show ?thesis by simp
  qed
qed

text \<open>
  On this path the row of a numeric or boolean column holds the 0.75 quantile as
  \<open>q3\<close>, and the finished table has one row per column, sorted by \<open>variable\<close>.
\<close>

lemma summarize_column_numeric:
  assumes "map_of d col = Some series"
    and "series' = (if series_dtype ops series = DBool then astype_int ops series else series)"
    and "kind_in_bifcu (series_dtype ops series')"
    and "summarize_column ops col d = (d', Inr r)"
  shows "row_q1 r = Some (series_quantile ops (1 / 4) series')
       \<and> row_q3 r = Some (series_quantile ops (3 / 4) series')
       \<and> row_min r = Some (series_min ops series')
       \<and> row_median r = Some (series_median ops series')
       \<and> row_max r = Some (series_max ops series')
       \<and> row_mad r = Some (series_mad ops series')
       \<and> row_mean r = Some (series_avg ops series')
       \<and> row_stan_dev r = Some (series_std ops series')
       \<and> mode_first ops series' = Inr (the (row_mode r))
       \<and> row_sum r = Some (series_sum ops series')"
  using assms
  by (auto simp: summarize_column_def Let_def split: if_splits sum.splits)

lemma data_summarize_sorted:
  assumes "data_summarize ops (Some d) = (w', table, None)"
  shows "sorted (map variable table) \<and> length table = length (columns d)
       \<and> set (map variable table) = set (columns d)"
proof -
  obtain d' rows e where loop: "summarize_loop ops (columns d) d [] = (d', rows, e)"
    by (cases "summarize_loop ops (columns d) d []") auto
  with assms have e: "e = None" and table: "table = sort_key variable rows"
    by (auto simp: data_summarize_def split: option.splits)
  from summarize_loop_variables [of ops "columns d" d "[]" d' rows] loop e
  have "map variable rows = columns d" by simp
  then have "length rows = length (columns d)" and "variable ` set rows = set (columns d)"
    by (metis length_map, metis list.set_map)
  then show ?thesis
    unfolding table by (simp add: sorted_sort_key)
qed

lemma data_summarize_run:
  "data_summarize series_ops0 (Some [(''b'', 4), (''a'', 0)])
   = (Some [(''b'', 4), (''a'', 0)],
      [\<lparr>variable = ''a'', data_type = DOther, row_count = 5, row_min = None, row_q1 = None,
         row_median = None, row_q3 = None, row_max = None, row_mad = None, row_mean = None,
         row_stan_dev = None, row_mode = None, row_sum = None\<rparr>,
       \<lparr>variable = ''b'', data_type = DInt, row_count = 5, row_min = Some 0, row_q1 = Some 1,
         row_median = Some 2, row_q3 = Some 3, row_max = Some 4, row_mad = Some 1,
         row_mean = Some 2, row_stan_dev = Some 1, row_mode = Some 0, row_sum = Some 10\<rparr>],
      None)"
  by (simp add: data_summarize_def columns_def summarize_column_def series_ops0_def
        less_eq_char_def less_char_def list_le_def)

text \<open>
  C7. In the options \<open>Summarize.draft\<close> declares, \<open>q3\<close> is \<open>numpy.nanquantile\<close>
  with \<open>q = 0.25\<close>, the same call as \<open>q1\<close>, not the 0.75 quantile.
\<close>

theorem summarize_q3_is_first_quartile:
  "map_of summarize_options ''q3''
     = Some \<lparr>option_name = ''quantile3'', option_module = ''numpy'',
             algorithm = ''nanquantile'', option_required = [(''q'', Number (1 / 4))]\<rparr>
   \<and> map_option algorithm (map_of summarize_options ''q3'')
       = map_option algorithm (map_of summarize_options ''q1'')
   \<and> map_option option_required (map_of summarize_options ''q3'')
       = map_option option_required (map_of summarize_options ''q1'')
   \<and> map_option option_required (map_of summarize_options ''q3'')
       \<noteq> Some [(''q'', Number (3 / 4))]"
  by (simp add: summarize_options_def)


section \<open>The \<open>parallelize\<close> flag does not interfere\<close>

lemma map_of_set_parallelize:
  "map_of (set_parallelize v s) sect =
     (case map_of s sect of
        None \<Rightarrow> None
      | Some sec \<Rightarrow>
          if sect = ''general'' \<and> map_of sec ''parallelize'' \<noteq> None
          then Some (AList.update ''parallelize'' v sec) else Some sec)"
  by (auto simp: set_parallelize_def update_conv' split: option.splits)

lemma settings_item_set_parallelize:
  assumes "sect \<noteq> ''general'' \<or> key \<noteq> ''parallelize''"
  shows "settings_item (Some (set_parallelize v s)) sect key = settings_item (Some s) sect key"
  using assms
  by (auto simp: settings_item_def getitem_def map_of_set_parallelize update_conv'
           split: option.splits)

lemma set_parallelize_empty: "set_parallelize v s = [] \<longleftrightarrow> s = []"
proof (cases s)
  case Nil
  then show ?thesis by (simp add: set_parallelize_def)
next
  case (Cons p ps)
  have "AList.update k x (p # ps) \<noteq> []" for k x
    by (cases p) simp
  with Cons show ?thesis
    by (simp add: set_parallelize_def split: option.splits)
qed

lemma settings_truthy_set_parallelize:
  "settings_truthy (Some (set_parallelize v s)) = settings_truthy (Some s)"
  by (simp add: settings_truthy_def set_parallelize_empty)

lemma set_parallelize_twice:
  "set_parallelize w (set_parallelize v s) = set_parallelize w s"
proof (cases "map_of s ''general''")
  case None
  then show ?thesis by (simp add: set_parallelize_def)
next
  case (Some g)
  show ?thesis
  proof (cases "map_of g ''parallelize''")
    case None
    with Some show ?thesis by (simp add: set_parallelize_def)
  next
    case (Some x)
    with \<open>map_of s ''general'' = Some g\<close> show ?thesis
      by (simp add: set_parallelize_def update_conv')
  qed
qed

lemma last_join_techniques: "join_underscore step ''techniques'' \<noteq> ''parallelize''"
proof
  assume "join_underscore step ''techniques'' = ''parallelize''"
  then have "last (join_underscore step ''techniques'') = last ''parallelize''" by simp
  then show False by (simp add: join_underscore_def)
qed

lemma step_techniques_set_parallelize:
  "step_techniques listify (set_parallelize v s) sect step = step_techniques listify s sect step"
  using last_join_techniques [of step]
  by (auto simp: step_techniques_def getitem_def map_of_set_parallelize update_conv'
           split: option.splits)

lemma build_techniques_set_parallelize:
  "build_techniques globals listify (set_parallelize v s) sect steps
     = build_techniques globals listify s sect steps"
proof -
  have "step_techniques listify (set_parallelize v s) sect = step_techniques listify s sect"
    by (rule ext) (rule step_techniques_set_parallelize)
  then show ?thesis
    by (simp add: build_techniques_def build_possibilities_def)
qed

lemma last_join_steps: "join_underscore sect ''steps'' \<noteq> ''general''"
proof
  assume "join_underscore sect ''steps'' = ''general''"
  then have "last (join_underscore sect ''steps'') = last ''general''" by simp
  then show False by (simp add: join_underscore_def)
qed

lemma getitem_set_parallelize:
  assumes "sect \<noteq> ''general''"
  shows "getitem (set_parallelize v s) sect = getitem s sect"
  using assms by (simp add: getitem_def map_of_set_parallelize split: option.splits)

lemma build_steps_set_parallelize:
  "build_steps listify_section (set_parallelize v s) sect = build_steps listify_section s sect"
  by (simp add: build_steps_def getitem_set_parallelize [OF last_join_steps])

lemma last_join_workers: "join_underscore outer ''workers'' \<noteq> ''parallelize''"
proof
  assume "join_underscore outer ''workers'' = ''parallelize''"
  then have "last (join_underscore outer ''workers'') = last ''parallelize''" by simp
  then show False by (simp add: join_underscore_def)
qed

lemma configured_workers_set_parallelize:
  "configured_workers listify (set_parallelize v s) outer = configured_workers listify s outer"
  using last_join_workers [of outer]
  by (auto simp: configured_workers_def getitem_def map_of_set_parallelize update_conv'
           split: option.splits)

lemma initialize_workers_set_parallelize:
  "apfst blank_project (initialize_workers listify (self\<lparr>project_idea := set_parallelize v s\<rparr>) workers)
     = apfst blank_project (initialize_workers listify (self\<lparr>project_idea := s\<rparr>) workers)"
proof (cases "getitem s ''workers''")
  case (Inl e)
  then show ?thesis
    by (simp add: initialize_workers_def getitem_set_parallelize blank_project_def
          set_parallelize_twice)
next
  case (Inr opts)
  then show ?thesis
    by (simp add: initialize_workers_def getitem_set_parallelize blank_project_def
          set_parallelize_twice configured_workers_set_parallelize Let_def
        cong: workers.case_cong sum.case_cong if_cong)
qed

lemma get_conditional_options_set_parallelize:
  "get_conditional_options (set_parallelize v s) options = get_conditional_options s options"
  by (simp add: get_conditional_options_def settings_item_set_parallelize)

text \<open>The methods of an object do not read its settings.\<close>

lemma resolve_df_settings [simp]: "resolve_df (self\<lparr>settings := x\<rparr>) df_arg = resolve_df self df_arg"
  by (simp add: resolve_df_def split: option.splits)

lemma resolve_arg_settings [simp]: "resolve_arg (self\<lparr>settings := x\<rparr>) df_arg = resolve_arg self df_arg"
  by (simp add: resolve_arg_def split: df_arg.splits)

lemma resolve_path_settings [simp]:
  "resolve_path (self\<lparr>settings := x\<rparr>) a = resolve_path self a"
  by (cases "filer self") (simp_all add: resolve_path_def)

lemma data_load_settings:
  "data_load pd (self\<lparr>settings := x\<rparr>) a = apfst (\<lambda>s. s\<lparr>settings := x\<rparr>) (data_load pd self a)"
proof (cases "resolve_path self a")
  case (Inl e)
  then show ?thesis by (simp add: data_load_def)
next
  case (Inr path)
  show ?thesis
  proof (cases "read_frame pd path (if truthy (test_data a) then test_rows a else PNone) a")
    case None
    with Inr show ?thesis by (simp add: data_load_def)
  next
    case (Some r)
    with Inr show ?thesis by (cases r) (simp_all add: data_load_def)
  qed
qed


lemma create_column_list_settings [simp]:
  "create_column_list (self\<lparr>settings := x\<rparr>) w prefixes cols = create_column_list self w prefixes cols"
  by (simp add: create_column_list_def)

lemma store_settings [simp]:
  "store (self\<lparr>settings := x\<rparr>) df_arg d dc = (store self df_arg d dc)\<lparr>settings := x\<rparr>"
  by (cases df_arg) (simp_all add: store_def)

lemma dropped_columns_settings [simp]:
  "dropped_columns (self\<lparr>settings := x\<rparr>) = dropped_columns self"
  by simp

lemma drop_cols_settings:
  "drop_cols (self\<lparr>settings := x\<rparr>) df_arg prefixes cols =
     (case drop_cols self df_arg prefixes cols of
        (after, self', e) \<Rightarrow> (after, self'\<lparr>settings := x\<rparr>, e))"
proof (cases "create_column_list self (resolve_arg self df_arg) prefixes cols")
  case (Inl e)
  then show ?thesis by (simp add: drop_cols_def)
next
  case (Inr cols')
  show ?thesis
  proof (cases "resolve_arg self df_arg")
    case None
    with Inr show ?thesis by (simp add: drop_cols_def)
  next
    case (Some d)
    with Inr show ?thesis by (cases "frame_drop cols' d") (simp_all add: drop_cols_def)
  qed
qed

lemma drop_infrequent_cols_settings:
  "drop_infrequent_cols mean (self\<lparr>settings := x\<rparr>) df_arg bools threshold =
     (case drop_infrequent_cols mean self df_arg bools threshold of
        (after, self', e) \<Rightarrow> (after, self'\<lparr>settings := x\<rparr>, e))"
proof (cases "resolve_arg self df_arg")
  case None
  then show ?thesis by (simp add: drop_infrequent_cols_def)
next
  case (Some d)
  then show ?thesis
    by (cases "drop_infrequent_loop mean threshold bools d (dropped_columns self)")
       (simp add: drop_infrequent_cols_def)
qed


lemma drop_highly_correlated_cols_settings:
  "drop_highly_correlated_cols upper_columns exceeds (self\<lparr>settings := x\<rparr>) df_arg cols threshold =
     (case drop_highly_correlated_cols upper_columns exceeds self df_arg cols threshold of
        (after, self', e) \<Rightarrow> (after, self'\<lparr>settings := x\<rparr>, e))"
proof (cases "resolve_arg self df_arg")
  case None
  then show ?thesis
    by (cases cols) (simp_all add: drop_highly_correlated_cols_def Let_def)
next
  case (Some d)
  show ?thesis
  proof (cases "frame_drop (filter (exceeds d threshold) (upper_columns d)) d")
    case (Inl e)
    with Some show ?thesis
      by (cases cols) (simp_all add: drop_highly_correlated_cols_def Let_def)
  next
    case (Inr d')
    with Some show ?thesis
      by (cases cols) (simp_all add: drop_highly_correlated_cols_def Let_def)
  qed
qed

lemma apply_drop_settings:
  "apply_drop st (self\<lparr>settings := x\<rparr>) op =
     (case apply_drop st self op of (after, self', e) \<Rightarrow> (after, self'\<lparr>settings := x\<rparr>, e))"
  by (cases op)
     (simp_all add: drop_cols_settings drop_infrequent_cols_settings
        drop_highly_correlated_cols_settings)

lemma seq_apfst:
  assumes "\<And>s. f (u s) = apfst u (f s)" and "\<And>s. g (u s) = apfst u (g s)"
  shows "seq f g (u s) = apfst u (seq f g s)"
proof (cases "f s")
  case (Pair s1 e)
  with assms(1) [of s] have "f (u s) = (u s1, e)" by simp
  with Pair assms(2) [of s1] show ?thesis
    by (cases e) (simp_all add: seq_def)
qed

lemma assign_column_list_settings:
  assumes "\<And>l s. setter l (s\<lparr>settings := x\<rparr>) = (setter l s)\<lparr>settings := x\<rparr>"
  shows "assign_column_list setter w prefixes cols (s\<lparr>settings := x\<rparr>)
         = apfst (\<lambda>s. s\<lparr>settings := x\<rparr>) (assign_column_list setter w prefixes cols s)"
  using assms
  by (cases "create_column_list s w prefixes cols") (simp_all add: assign_column_list_def)

lemma assign_num_cols_settings:
  "assign_num_cols (s\<lparr>settings := x\<rparr>) = apfst (\<lambda>s. s\<lparr>settings := x\<rparr>) (assign_num_cols s)"
  by (cases "float_cols s"; cases "int_cols s") (simp_all add: assign_num_cols_def attribute_def)

lemma assign_all_cols_settings:
  "assign_all_cols w (s\<lparr>settings := x\<rparr>) = apfst (\<lambda>s. s\<lparr>settings := x\<rparr>) (assign_all_cols w s)"
  by (cases w) (simp_all add: assign_all_cols_def)

lemma assign_column_dict_settings:
  "assign_column_dict (s\<lparr>settings := x\<rparr>) = apfst (\<lambda>s. s\<lparr>settings := x\<rparr>) (assign_column_dict s)"
  by (cases "bool_cols s"; cases "cat_cols s"; cases "float_cols s"; cases "int_cols s";
      cases "interact_cols s"; cases "str_cols s")
     (simp_all add: assign_column_dict_def attribute_def)

lemma column_types_settings:
  "column_types (self\<lparr>settings := x\<rparr>) df_arg a
     = apfst (\<lambda>s. s\<lparr>settings := x\<rparr>) (column_types self df_arg a)"
  unfolding column_types_def Let_def resolve_df_settings
  by (intro seq_apfst [where u = "\<lambda>s. s\<lparr>settings := x\<rparr>"] assign_column_list_settings
        assign_num_cols_settings assign_all_cols_settings assign_column_dict_settings) simp_all

lemma blank_flag_settings:
  "blank_flag (self\<lparr>settings := Some (set_parallelize v s)\<rparr>) = blank_flag (self\<lparr>settings := Some s\<rparr>)"
  by (simp add: blank_flag_def set_parallelize_twice)


lemma set_defaults_flag:
  "set_defaults (given\<lparr>settings := Some (set_parallelize v s)\<rparr>)
     = set_defaults (given\<lparr>settings := Some s\<rparr>)"
  by (cases "settings_item (Some s) ''general'' ''verbose''";
      cases "settings_item (Some s) ''general'' ''seed''")
     (simp_all add: set_defaults_def settings_item_set_parallelize Let_def)

lemma quick_start_args_flag:
  "quick_start_args (self\<lparr>settings := Some (set_parallelize v s)\<rparr>)
     = quick_start_args (self\<lparr>settings := Some s\<rparr>)"
  by (cases "filer self")
     (simp_all add: quick_start_args_def settings_item_set_parallelize cong: sum.case_cong)

lemma data_load_keeps_settings: "settings (fst (data_load pd self a)) = settings self"
proof (cases "resolve_path self a")
  case (Inl e)
  then show ?thesis by (simp add: data_load_def)
next
  case (Inr path)
  show ?thesis
  proof (cases "read_frame pd path (if truthy (test_data a) then test_rows a else PNone) a")
    case None
    with Inr show ?thesis by (simp add: data_load_def)
  next
    case (Some r)
    with Inr show ?thesis by (cases r) (simp_all add: data_load_def)
  qed
qed

lemma post_init_flag:
  "map_sum id blank_flag (post_init pd (given\<lparr>settings := Some (set_parallelize v s)\<rparr>))
     = map_sum id blank_flag (post_init pd (given\<lparr>settings := Some s\<rparr>))"
proof (cases "set_defaults (given\<lparr>settings := Some s\<rparr>)")
  case (Inl e)
  then show ?thesis by (simp add: post_init_def Let_def set_defaults_flag)
next
  case (Inr p)
  obtain vb sd where p: "p = (vb, sd)" by (cases p)
  let ?o = "\<lparr>settings = Some s, df = df given, quick_start = quick_start given,
             filer = filer given, seed = sd, verbose = vb, dropped_columns = [],
             splice_options = [], bool_cols = None, cat_cols = None,
             float_cols = None, int_cols = None, interact_cols = None,
             list_cols = None, str_cols = None, num_cols = None, all_cols = None,
             column_dict = None\<rparr>"
  let ?s1 = "set_parallelize v s"
  have o1: "\<lparr>settings = Some ?s1, df = df given, quick_start = quick_start given,
             filer = filer given, seed = sd, verbose = vb, dropped_columns = [],
             splice_options = [], bool_cols = None, cat_cols = None,
             float_cols = None, int_cols = None, interact_cols = None,
             list_cols = None, str_cols = None, num_cols = None, all_cols = None,
             column_dict = None\<rparr> = ?o\<lparr>settings := Some ?s1\<rparr>"
    by simp
  have o0: "?o\<lparr>settings := Some s\<rparr> = ?o" by simp
  show ?thesis
  proof (cases "quick_start given \<and> settings_truthy (Some s)")
    case False
    then have "post_init pd (given\<lparr>settings := Some s\<rparr>) = Inr ?o"
      using Inr p by (auto simp: post_init_def Let_def)
    moreover from False have "post_init pd (given\<lparr>settings := Some ?s1\<rparr>)
        = Inr (?o\<lparr>settings := Some ?s1\<rparr>)"
      using Inr p by (auto simp: post_init_def Let_def set_defaults_flag settings_truthy_set_parallelize)
    ultimately show ?thesis
      using blank_flag_settings [where self = ?o and v = v and s = s] by (simp only: map_sum.simps o0)
  next
    case True
    have args: "quick_start_args (?o\<lparr>settings := Some ?s1\<rparr>) = quick_start_args ?o"
      using quick_start_args_flag [where self = ?o and v = v and s = s] by (simp only: o0)
    show ?thesis
    proof (cases "quick_start_args ?o")
      case (Inl e)
      with True Inr p args show ?thesis
        by (simp add: post_init_def Let_def set_defaults_flag settings_truthy_set_parallelize)
    next
      case (Inr a)
      obtain o' r where ld: "data_load pd ?o a = (o', r)"
        by (cases "data_load pd ?o a")
      have st: "settings o' = Some s"
        using data_load_keeps_settings [of pd ?o a] ld by simp
      have ld1: "data_load pd (?o\<lparr>settings := Some ?s1\<rparr>) a = (o'\<lparr>settings := Some ?s1\<rparr>, r)"
        using data_load_settings [where pd = pd and self = ?o and x = "Some ?s1" and a = a] ld by simp
      have p0: "post_init pd (given\<lparr>settings := Some s\<rparr>) =
          (case r of Inl e \<Rightarrow> Inl e
           | Inr x \<Rightarrow> Inr (o'\<lparr>dropped_columns := [], splice_options := []\<rparr>))"
        using True \<open>set_defaults (given\<lparr>settings := Some s\<rparr>) = Inr p\<close> p Inr ld
        by (simp add: post_init_def Let_def)
      have p1: "post_init pd (given\<lparr>settings := Some ?s1\<rparr>) =
          (case r of Inl e \<Rightarrow> Inl e
           | Inr x \<Rightarrow> Inr (o'\<lparr>settings := Some ?s1, dropped_columns := [], splice_options := []\<rparr>))"
        using True \<open>set_defaults (given\<lparr>settings := Some s\<rparr>) = Inr p\<close> p Inr ld1 args
        by (simp add: post_init_def Let_def set_defaults_flag settings_truthy_set_parallelize)
      show ?thesis
        unfolding p0 p1
        by (cases r) (simp_all add: blank_flag_def st set_parallelize_twice)
    qed
  qed
qed


lemma set_parallelize_idea1:
  "set_parallelize (PBool False) idea1 =
     [(''general'', [(''verbose'', PBool True), (''parallelize'', PBool False), (''seed'', PInt 7),
                    (''gpu'', PBool False)]),
      (''files'', [(''data_in'', PStr ''csv''), (''test_data'', PBool False),
                  (''test_chunk'', PInt 500), (''encoding'', PStr ''utf-8'')])]"
  by (simp add: set_parallelize_def idea1_def)

lemma run_construct_idea1:
  "run idea1 (Construct pandas0 (data_default_fields\<lparr>quick_start := True, filer := Some filer0\<rparr>))
   = Constructed (Inr (data0\<lparr>settings := Some idea1, df := Some [(''a'', 1), (''b'', 2)],
        quick_start := True, filer := Some filer0, seed := PInt 7\<rparr>))"
  by (simp add: post_init_def set_defaults_def settings_item_def getitem_def idea1_def
        data_default_fields_def data0_def settings_truthy_def quick_start_args_def
        data_load_def resolve_path_def read_frame_def load_defaults_def filer0_def pandas0_def)

lemma run_construct_idea1_flag:
  "run (set_parallelize (PBool False) idea1)
     (Construct pandas0 (data_default_fields\<lparr>quick_start := True, filer := Some filer0\<rparr>))
   = Constructed (Inr (data0\<lparr>settings := Some (set_parallelize (PBool False) idea1),
        df := Some [(''a'', 1), (''b'', 2)],
        quick_start := True, filer := Some filer0, seed := PInt 7\<rparr>))"
  unfolding set_parallelize_idea1
  by (simp add: post_init_def set_defaults_def settings_item_def getitem_def
        data_default_fields_def data0_def settings_truthy_def quick_start_args_def
        data_load_def resolve_path_def read_frame_def load_defaults_def filer0_def pandas0_def)

lemma set_parallelize_idea2:
  "set_parallelize (PBool False) idea2 =
     [(''general'', [(''verbose'', PBool True), (''parallelize'', PBool False), (''seed'', PInt 7),
                    (''gpu'', PBool False)]),
      (''project'', [(''project_workers'', PList [PStr ''wrangler'', PStr ''analyst''])]),
      (''workers'', [(''wrangler'', PStr ''simplify.wrangler''), (''analyst'', PStr ''simplify.analyst''),
                    (''critic'', PStr ''simplify.critic'')])]"
  by (simp add: set_parallelize_def idea2_def)

lemma run_initialize_workers_idea2:
  "run idea2 (InitializeWorkers listify_plain project0 (WorkerDict []))
   = Initialized
       (project0\<lparr>project_idea := idea2,
          project_options := Some [(''wrangler'', PStr ''simplify.wrangler''),
            (''analyst'', PStr ''simplify.analyst''), (''critic'', PStr ''simplify.critic'')]\<rparr>,
        Inr (WorkerDict [(''wrangler'', Inl (PStr ''simplify.wrangler'')),
                         (''analyst'', Inl (PStr ''simplify.analyst''))]))"
  by (simp add: initialize_workers_def configured_workers_def getitem_def idea2_def project0_def
        join_underscore_def Let_def)




end
